theory Spec2Isabelle
  imports Main
begin

section \<open>Python values, exceptions and the operators the client applies to them\<close>

text \<open>
  The values that \<^verbatim>\<open>json.loads\<close> and \<^verbatim>\<open>response.json()\<close> hand to the program:
  \<^verbatim>\<open>None\<close>, \<^verbatim>\<open>bool\<close>, \<^verbatim>\<open>int\<close>, \<^verbatim>\<open>float\<close>, \<^verbatim>\<open>str\<close>, \<^verbatim>\<open>list\<close> and \<^verbatim>\<open>dict\<close>
  (keys in insertion order). A float is carried as the literal it was read from: the
  client never computes with it. Strings are byte strings (UTF-8).
\<close>

datatype json =
    JNull
  | JBool bool
  | JInt int
  | JFloat string
  | JStr string
  | JArr "json list"
  | JObj "(string \<times> json) list"

text \<open>
  Exceptions, all of them subclasses of \<^verbatim>\<open>Exception\<close>; the argument is \<^verbatim>\<open>str(e)\<close>.
  \<open>OtherException\<close> stands for every class the program does not name
  (\<^verbatim>\<open>requests.ConnectionError\<close>, \<^verbatim>\<open>Timeout\<close>, \<^verbatim>\<open>OSError\<close>, \<^verbatim>\<open>UnicodeDecodeError\<close>, ...).
\<close>

datatype exn =
    JSONDecodeError string
  | TypeError string
  | AttributeError string
  | KeyError string
  | OtherException string

fun str_exn :: "exn \<Rightarrow> string" where
  "str_exn (JSONDecodeError m) = m"
| "str_exn (TypeError m) = m"
| "str_exn (AttributeError m) = m"
| "str_exn (KeyError m) = m"
| "str_exn (OtherException m) = m"

fun is_JSONDecodeError :: "exn \<Rightarrow> bool" where
  "is_JSONDecodeError (JSONDecodeError m) = True"
| "is_JSONDecodeError e = False"

fun type_name :: "json \<Rightarrow> string" where
  "type_name JNull = ''NoneType''"
| "type_name (JBool b) = ''bool''"
| "type_name (JInt i) = ''int''"
| "type_name (JFloat f) = ''float''"
| "type_name (JStr s) = ''str''"
| "type_name (JArr xs) = ''list''"
| "type_name (JObj kvs) = ''dict''"

fun is_dict :: "json \<Rightarrow> bool" where
  "is_dict (JObj kvs) = True"
| "is_dict v = False"

text \<open>A name between single quotes, as the interpreter's messages write it.\<close>

definition quoted :: "string \<Rightarrow> string" where
  "quoted s = [CHR 0x27] @ s @ [CHR 0x27]"

text \<open>\<^verbatim>\<open>a in b\<close> on two strings: \<open>a\<close> occurs in \<open>b\<close> as a contiguous substring.\<close>

fun is_substring :: "string \<Rightarrow> string \<Rightarrow> bool" where
  "is_substring xs [] = (xs = [])"
| "is_substring xs (y # ys) = (take (length xs) (y # ys) = xs \<or> is_substring xs ys)"

text \<open>
  \<^verbatim>\<open>key in data\<close> for a string key: key membership on a dict, element equality on a
  list, substring on a string, and \<^verbatim>\<open>TypeError\<close> on a value that is no container.
  The messages of the exceptions are CPython's; their wording differs between versions
  of the interpreter and no statement below rests on it.
\<close>

fun py_contains :: "string \<Rightarrow> json \<Rightarrow> exn + bool" where
  "py_contains key (JObj kvs) = Inr (key \<in> set (map fst kvs))"
| "py_contains key (JArr xs) = Inr (JStr key \<in> set xs)"
| "py_contains key (JStr s) = Inr (is_substring key s)"
| "py_contains key v =
     Inl (TypeError (''argument of type '' @ quoted (type_name v) @ '' is not iterable''))"

text \<open>\<^verbatim>\<open>data[key]\<close> for a string key: only a dict can be indexed by a string.\<close>

fun py_getitem :: "json \<Rightarrow> string \<Rightarrow> exn + json" where
  "py_getitem (JObj kvs) key =
     (case map_of kvs key of
        Some v \<Rightarrow> Inr v
      | None \<Rightarrow> Inl (KeyError (quoted key)))"
| "py_getitem (JArr xs) key = Inl (TypeError ''list indices must be integers or slices, not str'')"
| "py_getitem (JStr s) key = Inl (TypeError ''string indices must be integers'')"
| "py_getitem v key =
     Inl (TypeError (quoted (type_name v) @ '' object is not subscriptable''))"

text \<open>\<^verbatim>\<open>data.get(key, default)\<close>: a method of dict only.\<close>

fun py_get :: "json \<Rightarrow> string \<Rightarrow> json \<Rightarrow> exn + json" where
  "py_get (JObj kvs) key dflt =
     (case map_of kvs key of Some v \<Rightarrow> Inr v | None \<Rightarrow> Inr dflt)"
| "py_get v key dflt =
     Inl (AttributeError (quoted (type_name v) @ '' object has no attribute '' @ quoted ''get''))"

text \<open>\<^verbatim>\<open>str(n)\<close> of an integer: its decimal digits.\<close>

definition digit_char :: "nat \<Rightarrow> char" where
  "digit_char d = char_of (48 + d)"

function str_nat :: "nat \<Rightarrow> string" where
  "str_nat n = (if n < 10 then [digit_char n] else str_nat (n div 10) @ [digit_char (n mod 10)])"
  by pat_completeness auto
termination
  by (relation "measure id") auto

declare str_nat.simps [simp del]

definition str_int :: "int \<Rightarrow> string" where
  "str_int i = (if i < 0 then CHR ''-'' # str_nat (nat (- i)) else str_nat (nat i))"

text \<open>Truthiness of an \<^verbatim>\<open>Optional[str]\<close>: \<^verbatim>\<open>None\<close> and the empty string are falsy.\<close>

fun truthy :: "string option \<Rightarrow> bool" where
  "truthy None = False"
| "truthy (Some s) = (s \<noteq> [])"

section \<open>The HTTP transport as the client sees it\<close>

text \<open>
  The \<^verbatim>\<open>requests\<close> library and the inference server are outside the repository. A call
  \<^verbatim>\<open>requests.get\<close>/\<^verbatim>\<open>requests.post\<close> either raises or returns a response object, of
  which the client reads \<^verbatim>\<open>status_code\<close>, \<^verbatim>\<open>text\<close>, \<^verbatim>\<open>json()\<close> and \<^verbatim>\<open>iter_lines()\<close>.
  \<open>iter_lines\<close> is the finite sequence of lines delivered before the server closes the
  connection; \<open>iter_error\<close> is the exception that iteration raises after them, if the
  transfer breaks instead of ending.
\<close>

datatype http_method = GET | POST

record payload =
  model :: string
  prompt :: string
  stream :: bool
  system :: "string option"

record request =
  http_method :: http_method
  url :: string
  json_arg :: "payload option"
  stream_arg :: bool
  timeout :: "nat option"

record response =
  status_code :: int
  body_text :: string
  json_result :: "exn + json"
  iter_lines :: "string list"
  iter_error :: "exn option"

type_synonym transport = "request \<Rightarrow> exn + response"

text \<open>\<^verbatim>\<open>json.loads\<close>, the standard library's decoder, is a parameter of the model.\<close>

type_synonym decoder = "string \<Rightarrow> exn + json"

section \<open>\<^verbatim>\<open>class AIClient\<close>\<close>

record aiclient =
  base_url :: string
  default_model :: string

definition AIClient_init :: "aiclient" where
  "AIClient_init = \<lparr>base_url = ''http://localhost:11434'', default_model = ''llama3-small-q3-k-s''\<rparr>"

definition tags_url :: "aiclient \<Rightarrow> string" where
  "tags_url self = base_url self @ ''/api/tags''"

definition generate_url :: "aiclient \<Rightarrow> string" where
  "generate_url self = base_url self @ ''/api/generate''"

subsection \<open>\<^verbatim>\<open>check_connection\<close>\<close>

definition check_connection_request :: "aiclient \<Rightarrow> request" where
  "check_connection_request self =
     \<lparr>http_method = GET, url = tags_url self, json_arg = None, stream_arg = False, timeout = Some 5\<rparr>"

definition check_connection :: "transport \<Rightarrow> aiclient \<Rightarrow> bool" where
  "check_connection net self =
     (case net (check_connection_request self) of
        Inl e \<Rightarrow> False
      | Inr r \<Rightarrow> status_code r = 200)"

subsection \<open>\<^verbatim>\<open>list_models\<close>\<close>

definition list_models_request :: "aiclient \<Rightarrow> request" where
  "list_models_request self =
     \<lparr>http_method = GET, url = tags_url self, json_arg = None, stream_arg = False, timeout = None\<rparr>"

text \<open>The body of the \<^verbatim>\<open>try\<close>, an exception being the value \<open>Inl\<close>.\<close>

definition list_models_try :: "transport \<Rightarrow> aiclient \<Rightarrow> exn + json" where
  "list_models_try net self =
     (case net (list_models_request self) of
        Inl e \<Rightarrow> Inl e
      | Inr r \<Rightarrow>
          if status_code r = 200 then
            (case json_result r of
               Inl e \<Rightarrow> Inl e
             | Inr d \<Rightarrow> py_get d ''models'' (JArr []))
          else Inr (JArr []))"

definition list_models :: "transport \<Rightarrow> aiclient \<Rightarrow> json" where
  "list_models net self =
     (case list_models_try net self of
        Inl e \<Rightarrow> JArr []
      | Inr v \<Rightarrow> v)"

subsection \<open>\<^verbatim>\<open>chat\<close>\<close>

definition make_payload :: "aiclient \<Rightarrow> string \<Rightarrow> string option \<Rightarrow> string option \<Rightarrow> bool \<Rightarrow> payload" where
  "make_payload self message mdl system_prompt strm =
     \<lparr>model = (if \<not> truthy mdl then default_model self else the mdl),
      prompt = message,
      stream = strm,
      system = (if truthy system_prompt then system_prompt else None)\<rparr>"

definition chat_request :: "aiclient \<Rightarrow> string \<Rightarrow> string option \<Rightarrow> string option \<Rightarrow> request" where
  "chat_request self message mdl system_prompt =
     \<lparr>http_method = POST, url = generate_url self,
      json_arg = Some (make_payload self message mdl system_prompt False),
      stream_arg = False, timeout = Some 120\<rparr>"

definition chat_try :: "transport \<Rightarrow> aiclient \<Rightarrow> string \<Rightarrow> string option \<Rightarrow> string option \<Rightarrow> exn + json" where
  "chat_try net self message mdl system_prompt =
     (case net (chat_request self message mdl system_prompt) of
        Inl e \<Rightarrow> Inl e
      | Inr r \<Rightarrow>
          if status_code r = 200 then
            (case json_result r of
               Inl e \<Rightarrow> Inl e
             | Inr d \<Rightarrow> py_get d ''response'' (JStr ''No response received''))
          else Inr (JStr (''Error: '' @ str_int (status_code r) @ '' - '' @ body_text r)))"

definition chat :: "transport \<Rightarrow> aiclient \<Rightarrow> string \<Rightarrow> string option \<Rightarrow> string option \<Rightarrow> json" where
  "chat net self message mdl system_prompt =
     (case chat_try net self message mdl system_prompt of
        Inl e \<Rightarrow> JStr (''Connection error: '' @ str_exn e)
      | Inr v \<Rightarrow> v)"

subsection \<open>\<^verbatim>\<open>chat_stream\<close>\<close>

definition chat_stream_request :: "aiclient \<Rightarrow> string \<Rightarrow> string option \<Rightarrow> string option \<Rightarrow> request" where
  "chat_stream_request self message mdl system_prompt =
     \<lparr>http_method = POST, url = generate_url self,
      json_arg = Some (make_payload self message mdl system_prompt True),
      stream_arg = True, timeout = Some 120\<rparr>"

text \<open>
  The \<^verbatim>\<open>for line in response.iter_lines()\<close> loop over the lines delivered. The result is
  the values yielded, in order, and the exception that left the loop, if one did: the
  inner \<^verbatim>\<open>try\<close> catches \<^verbatim>\<open>json.JSONDecodeError\<close> alone, so any other exception raised by
  \<^verbatim>\<open>json.loads\<close>, by \<^verbatim>\<open>"response" in data\<close> or by \<^verbatim>\<open>data["response"]\<close> ends the loop.
\<close>

fun decode_lines :: "decoder \<Rightarrow> string list \<Rightarrow> json list \<times> exn option" where
  "decode_lines loads [] = ([], None)"
| "decode_lines loads (line # rest) =
     (if line = [] then decode_lines loads rest
      else
        (case loads line of
           Inl e \<Rightarrow> if is_JSONDecodeError e then decode_lines loads rest else ([], Some e)
         | Inr data \<Rightarrow>
             (case py_contains ''response'' data of
                Inl e \<Rightarrow> ([], Some e)
              | Inr False \<Rightarrow> decode_lines loads rest
              | Inr True \<Rightarrow>
                  (case py_getitem data ''response'' of
                     Inl e \<Rightarrow> ([], Some e)
                   | Inr v \<Rightarrow> (v # fst (decode_lines loads rest), snd (decode_lines loads rest))))))"

definition connection_error :: "exn \<Rightarrow> json" where
  "connection_error e = JStr (''Connection error: '' @ str_exn e)"

text \<open>
  The values the generator yields when it is consumed to its end. An exception raised by
  \<^verbatim>\<open>requests.post\<close>, inside the loop or by the line iterator is caught by the outer
  \<^verbatim>\<open>except Exception\<close>, which yields one more value and returns.
\<close>

definition chat_stream ::
  "decoder \<Rightarrow> transport \<Rightarrow> aiclient \<Rightarrow> string \<Rightarrow> string option \<Rightarrow> string option \<Rightarrow> json list" where
  "chat_stream loads net self message mdl system_prompt =
     (case net (chat_stream_request self message mdl system_prompt) of
        Inl e \<Rightarrow> [connection_error e]
      | Inr r \<Rightarrow>
          (case decode_lines loads (iter_lines r) of
             (chunks, Some e) \<Rightarrow> chunks @ [connection_error e]
           | (chunks, None) \<Rightarrow>
               (case iter_error r of
                  Some e \<Rightarrow> chunks @ [connection_error e]
                | None \<Rightarrow> chunks)))"

section \<open>A reference decoder for JSON text\<close>

text \<open>
  The program is stated for an arbitrary decoder. To run it on the text of a concrete
  line or body, \<open>json_loads\<close> decodes JSON text the way \<^verbatim>\<open>json.loads\<close> does: white
  space is blank, tab, line feed and carriage return; a string may not hold a raw control
  character and its escapes are the eight two-character ones and \<^verbatim>\<open>\uXXXX\<close> (a
  surrogate pair is one character); a number with neither fraction nor exponent is an
  \<^verbatim>\<open>int\<close>, any other a \<^verbatim>\<open>float\<close>; \<^verbatim>\<open>NaN\<close>, \<^verbatim>\<open>Infinity\<close> and \<^verbatim>\<open>-Infinity\<close> are
  accepted; a repeated key keeps its first position and its last value; text after the
  value is an error. What lies below JSON text is left out: the decoding of the bytes of
  the line (the library raises \<^verbatim>\<open>UnicodeDecodeError\<close>, which is no
  \<^verbatim>\<open>JSONDecodeError\<close>, on bytes that are not valid UTF-8), the interpreter's limits on
  nesting depth and on the digits of an integer, and the wording of the error message.
  The recursion carries fuel, two units for each character of the text and two more: a
  call hands on one unit less, and of two nested calls at least one has consumed a
  character.
\<close>

definition is_ws :: "char \<Rightarrow> bool" where
  "is_ws c = (c = CHR '' '' \<or> c = CHR 0x09 \<or> c = CHR 0x0A \<or> c = CHR 0x0D)"

definition skip_ws :: "string \<Rightarrow> string" where
  "skip_ws s = dropWhile is_ws s"

definition is_digit :: "char \<Rightarrow> bool" where
  "is_digit c = (48 \<le> (of_char c :: nat) \<and> (of_char c :: nat) \<le> 57)"

definition hex_val :: "char \<Rightarrow> nat option" where
  "hex_val c =
     (let n = (of_char c :: nat) in
      if 48 \<le> n \<and> n \<le> 57 then Some (n - 48)
      else if 97 \<le> n \<and> n \<le> 102 then Some (n - 87)
      else if 65 \<le> n \<and> n \<le> 70 then Some (n - 55)
      else None)"

definition hex4 :: "string \<Rightarrow> nat option" where
  "hex4 s =
     (case map hex_val (take 4 s) of
        [Some a, Some b, Some c, Some d] \<Rightarrow> Some (((a * 16 + b) * 16 + c) * 16 + d)
      | _ \<Rightarrow> None)"

definition utf8 :: "nat \<Rightarrow> string" where
  "utf8 n =
     (if n < 0x80 then [char_of n]
      else if n < 0x800 then [char_of (0xC0 + n div 64), char_of (0x80 + n mod 64)]
      else if n < 0x10000 then
        [char_of (0xE0 + n div 4096), char_of (0x80 + (n div 64) mod 64), char_of (0x80 + n mod 64)]
      else
        [char_of (0xF0 + n div 262144), char_of (0x80 + (n div 4096) mod 64),
         char_of (0x80 + (n div 64) mod 64), char_of (0x80 + n mod 64)])"

definition unescape :: "char \<Rightarrow> char option" where
  "unescape c =
     (if c = CHR 0x22 then Some (CHR 0x22)
      else if c = CHR 0x5C then Some (CHR 0x5C)
      else if c = CHR ''/'' then Some (CHR ''/'')
      else if c = CHR ''b'' then Some (CHR 0x08)
      else if c = CHR ''f'' then Some (CHR 0x0C)
      else if c = CHR ''n'' then Some (CHR 0x0A)
      else if c = CHR ''r'' then Some (CHR 0x0D)
      else if c = CHR ''t'' then Some (CHR 0x09)
      else None)"

definition scan_unicode :: "string \<Rightarrow> (string \<times> string) option" where
  "scan_unicode s =
     (case hex4 s of
        None \<Rightarrow> None
      | Some u \<Rightarrow>
          (let rest = drop 4 s in
           if 0xD800 \<le> u \<and> u \<le> 0xDBFF \<and> take 2 rest = [CHR 0x5C, CHR ''u''] then
             (case hex4 (drop 2 rest) of
                None \<Rightarrow> None
              | Some u2 \<Rightarrow>
                  if 0xDC00 \<le> u2 \<and> u2 \<le> 0xDFFF
                  then Some (utf8 (0x10000 + ((u - 0xD800) * 1024 + (u2 - 0xDC00))), drop 6 rest)
                  else Some (utf8 u, rest))
           else Some (utf8 u, rest)))"

fun scan_string :: "nat \<Rightarrow> string \<Rightarrow> (string \<times> string) option" where
  "scan_string 0 s = None"
| "scan_string (Suc n) [] = None"
| "scan_string (Suc n) (c # cs) =
     (if c = CHR 0x22 then Some ([], cs)
      else if c = CHR 0x5C then
        (case cs of
           [] \<Rightarrow> None
         | e # cs' \<Rightarrow>
             if e = CHR ''u'' then
               (case scan_unicode cs' of
                  None \<Rightarrow> None
                | Some (bs, r) \<Rightarrow>
                    (case scan_string n r of None \<Rightarrow> None | Some (str, r') \<Rightarrow> Some (bs @ str, r')))
             else
               (case unescape e of
                  None \<Rightarrow> None
                | Some d \<Rightarrow>
                    (case scan_string n cs' of None \<Rightarrow> None | Some (str, r') \<Rightarrow> Some (d # str, r'))))
      else if (of_char c :: nat) < 0x20 then None
      else (case scan_string n cs of None \<Rightarrow> None | Some (str, r') \<Rightarrow> Some (c # str, r')))"

fun int_of_digits :: "string \<Rightarrow> int \<Rightarrow> int" where
  "int_of_digits [] acc = acc"
| "int_of_digits (d # ds) acc = int_of_digits ds (10 * acc + (int (of_char d) - 48))"

definition scan_number :: "string \<Rightarrow> (json \<times> string) option" where
  "scan_number s =
     (let neg = (s \<noteq> [] \<and> hd s = CHR ''-'');
          s1 = (if neg then tl s else s);
          ds = takeWhile is_digit s1
      in if ds = [] then None
         else
           (let ip = (if hd ds = CHR ''0'' then ''0'' else ds);
                s2 = drop (length ip) s1;
                fd = (if s2 \<noteq> [] \<and> hd s2 = CHR ''.'' then takeWhile is_digit (tl s2) else []);
                frac = (if fd = [] then [] else CHR ''.'' # fd);
                s3 = drop (length frac) s2;
                e1 = (if s3 \<noteq> [] \<and> (hd s3 = CHR ''e'' \<or> hd s3 = CHR ''E'') then tl s3 else []);
                sg = (if e1 \<noteq> [] \<and> (hd e1 = CHR ''-'' \<or> hd e1 = CHR ''+'') then [hd e1] else []);
                ed = takeWhile is_digit (drop (length sg) e1);
                ex = (if ed = [] then [] else hd s3 # sg @ ed);
                s4 = drop (length ex) s3
            in if frac = [] \<and> ex = []
               then Some (JInt ((if neg then - 1 else 1) * int_of_digits ip 0), s4)
               else Some (JFloat ((if neg then ''-'' else []) @ ip @ frac @ ex), s4)))"

fun dict_set :: "(string \<times> json) list \<Rightarrow> string \<Rightarrow> json \<Rightarrow> (string \<times> json) list" where
  "dict_set [] k v = [(k, v)]"
| "dict_set (p # ps) k v = (if fst p = k then (k, v) # ps else p # dict_set ps k v)"

definition dict_of_pairs :: "(string \<times> json) list \<Rightarrow> (string \<times> json) list" where
  "dict_of_pairs ps = foldl (\<lambda>d p. dict_set d (fst p) (snd p)) [] ps"

fun parse_value :: "nat \<Rightarrow> string \<Rightarrow> (json \<times> string) option"
  and parse_items :: "nat \<Rightarrow> string \<Rightarrow> (json list \<times> string) option"
  and parse_members :: "nat \<Rightarrow> string \<Rightarrow> ((string \<times> json) list \<times> string) option"
where
  "parse_value 0 s = None"
| "parse_value (Suc n) s =
     (case s of
        [] \<Rightarrow> None
      | c # cs \<Rightarrow>
          if c = CHR 0x22 then
            (case scan_string (Suc (length cs)) cs of
               None \<Rightarrow> None
             | Some (str, r) \<Rightarrow> Some (JStr str, r))
          else if c = CHR ''{'' then
            (case skip_ws cs of
               [] \<Rightarrow> None
             | d # r \<Rightarrow>
                 if d = CHR ''}'' then Some (JObj [], r)
                 else
                   (case parse_members n (d # r) of
                      None \<Rightarrow> None
                    | Some (kvs, r') \<Rightarrow> Some (JObj (dict_of_pairs kvs), r')))
          else if c = CHR ''['' then
            (case skip_ws cs of
               [] \<Rightarrow> None
             | d # r \<Rightarrow>
                 if d = CHR '']'' then Some (JArr [], r)
                 else
                   (case parse_items n (d # r) of
                      None \<Rightarrow> None
                    | Some (vs, r') \<Rightarrow> Some (JArr vs, r')))
          else if take 4 s = ''null'' then Some (JNull, drop 4 s)
          else if take 4 s = ''true'' then Some (JBool True, drop 4 s)
          else if take 5 s = ''false'' then Some (JBool False, drop 5 s)
          else
            (case scan_number s of
               Some res \<Rightarrow> Some res
             | None \<Rightarrow>
                 if take 3 s = ''NaN'' then Some (JFloat ''NaN'', drop 3 s)
                 else if take 8 s = ''Infinity'' then Some (JFloat ''Infinity'', drop 8 s)
                 else if take 9 s = ''-Infinity'' then Some (JFloat ''-Infinity'', drop 9 s)
                 else None))"
| "parse_items 0 s = None"
| "parse_items (Suc n) s =
     (case parse_value n s of
        None \<Rightarrow> None
      | Some (v, r) \<Rightarrow>
          (case skip_ws r of
             [] \<Rightarrow> None
           | d # r' \<Rightarrow>
               if d = CHR '']'' then Some ([v], r')
               else if d = CHR '','' then
                 (case parse_items n (skip_ws r') of
                    None \<Rightarrow> None
                  | Some (vs, r'') \<Rightarrow> Some (v # vs, r''))
               else None))"
| "parse_members 0 s = None"
| "parse_members (Suc n) s =
     (case s of
        [] \<Rightarrow> None
      | q # cs \<Rightarrow>
          if q \<noteq> CHR 0x22 then None
          else
            (case scan_string (Suc (length cs)) cs of
               None \<Rightarrow> None
             | Some (k, r) \<Rightarrow>
                 (case skip_ws r of
                    [] \<Rightarrow> None
                  | colon # r1 \<Rightarrow>
                      if colon \<noteq> CHR '':'' then None
                      else
                        (case parse_value n (skip_ws r1) of
                           None \<Rightarrow> None
                         | Some (v, r2) \<Rightarrow>
                             (case skip_ws r2 of
                                [] \<Rightarrow> None
                              | d # r3 \<Rightarrow>
                                  if d = CHR ''}'' then Some ([(k, v)], r3)
                                  else if d = CHR '','' then
                                    (case parse_members n (skip_ws r3) of
                                       None \<Rightarrow> None
                                     | Some (kvs, r4) \<Rightarrow> Some ((k, v) # kvs, r4))
                                  else None)))))"

definition json_loads :: "string \<Rightarrow> exn + json" where
  "json_loads s =
     (case parse_value (2 * length s + 2) (skip_ws s) of
        None \<Rightarrow> Inl (JSONDecodeError ''Expecting value'')
      | Some (v, r) \<Rightarrow>
          if skip_ws r = [] then Inr v else Inl (JSONDecodeError ''Extra data''))"

section \<open>\<^verbatim>\<open>class AICLI\<close>\<close>

text \<open>
  A run of a command is recorded as the sequence of its effects, in order: the HTTP
  requests it issues, the \<^verbatim>\<open>print\<close> statements it executes and its calls of
  \<^verbatim>\<open>os.system\<close>. A \<^verbatim>\<open>print\<close> is recorded as the statement that ran, with the values it
  formats; the colouring and padding of the text are the presentation layer's. A run ends
  by returning or with an exception that nothing catches.
\<close>

datatype message =
    NotRunningError
  | StartTip
  | Header string
  | YouLine string
  | AIPrefix
  | Chunk json
  | EndOfLine
  | BlankLine
  | Reply json
  | ReplyBlank json
  | InteractiveHint
  | InputPrompt
  | Goodbye
  | GoodbyeInterrupted
  | HelpText
  | RequestLine string
  | AIResponseLabel
  | TopicLine string
  | ExplanationLabel
  | OriginalLine string
  | TranslationLabel
  | InputLine string
  | SummaryLabel
  | ReviewingLine string
  | ReviewLabel
  | FileReadError exn
  | FileNotFound string
  | NoModels
  | ModelsTableHead
  | ModelsRule
  | ModelRow json

datatype event =
    Request request
  | Print message
  | System string

type_synonym run = "event list \<times> exn option"

text \<open>
  What the program reads from its surroundings: the transport, the decoder, the file
  system (\<^verbatim>\<open>os.path.isfile\<close>, and \<^verbatim>\<open>open(...).read()\<close> with the exception it may
  raise), whether standard output is a terminal, and whether \<^verbatim>\<open>os.name\<close> is
  \<^verbatim>\<open>posix\<close>. The transport answers a request the same way each time it is asked
  within one run.
\<close>

record world =
  w_net :: transport
  w_loads :: decoder
  isfile :: "string \<Rightarrow> bool"
  read_file :: "string \<Rightarrow> exn + string"
  isatty :: bool
  posix :: bool

text \<open>
  What \<^verbatim>\<open>input()\<close> returns or raises at each call. When the list is used up standard
  input is at its end and \<^verbatim>\<open>input()\<close> raises \<^verbatim>\<open>EOFError\<close>. An interrupt is modelled
  where the program waits for input.
\<close>

datatype keyboard = Typed string | CtrlC

datatype command =
    Chat "string option" bool
  | Code string
  | Explain string
  | Translate string string
  | Summarize string
  | Review string
  | Models
  | NoCommand

record cli_args =
  command :: command
  model_arg :: string
  stream_flag :: bool

record aicli =
  client :: aiclient

definition AICLI_init :: "aicli" where
  "AICLI_init = \<lparr>client = AIClient_init\<rparr>"

text \<open>
  \<^verbatim>\<open>str.lower\<close> and \<^verbatim>\<open>str.strip\<close> on ASCII text: a byte outside ASCII is neither a
  capital letter nor white space here.
\<close>

definition lower_char :: "char \<Rightarrow> char" where
  "lower_char c =
     (if 65 \<le> (of_char c :: nat) \<and> (of_char c :: nat) \<le> 90 then char_of ((of_char c :: nat) + 32) else c)"

definition lower :: "string \<Rightarrow> string" where
  "lower s = map lower_char s"

definition is_space :: "char \<Rightarrow> bool" where
  "is_space c =
     (let n = (of_char c :: nat) in (9 \<le> n \<and> n \<le> 13) \<or> (28 \<le> n \<and> n \<le> 32))"

definition strip :: "string \<Rightarrow> string" where
  "strip s = rev (dropWhile is_space (rev (dropWhile is_space s)))"

subsection \<open>\<^verbatim>\<open>check_ollama_status\<close>\<close>

definition check_ollama_status :: "world \<Rightarrow> aicli \<Rightarrow> event list \<times> bool" where
  "check_ollama_status w self =
     (if \<not> check_connection (w_net w) (client self)
      then ([Request (check_connection_request (client self)), Print NotRunningError, Print StartTip], False)
      else ([Request (check_connection_request (client self))], True))"

subsection \<open>Printing a reply\<close>

text \<open>
  \<^verbatim>\<open>for chunk in self.client.chat_stream(...): print(chunk, end="", flush=True)\<close>,
  the request first.
\<close>

definition print_stream ::
  "world \<Rightarrow> aicli \<Rightarrow> string \<Rightarrow> string option \<Rightarrow> string option \<Rightarrow> event list" where
  "print_stream w self message mdl system_prompt =
     Request (chat_stream_request (client self) message mdl system_prompt)
       # map (\<lambda>chunk. Print (Chunk chunk))
           (chat_stream (w_loads w) (w_net w) (client self) message mdl system_prompt)"

text \<open>\<^verbatim>\<open>response = self.client.chat(...); print(response)\<close>\<close>

definition print_chat ::
  "world \<Rightarrow> aicli \<Rightarrow> string \<Rightarrow> string option \<Rightarrow> string option \<Rightarrow> event list" where
  "print_chat w self message mdl system_prompt =
     [Request (chat_request (client self) message mdl system_prompt),
      Print (Reply (chat (w_net w) (client self) message mdl system_prompt))]"

text \<open>The tail shared by the commands: \<^verbatim>\<open>if args.stream: ... print() else: ...\<close>\<close>

definition respond ::
  "world \<Rightarrow> aicli \<Rightarrow> cli_args \<Rightarrow> string \<Rightarrow> string option \<Rightarrow> event list" where
  "respond w self args prompt_text system_prompt =
     (if stream_flag args
      then print_stream w self prompt_text (Some (model_arg args)) system_prompt @ [Print EndOfLine]
      else print_chat w self prompt_text (Some (model_arg args)) system_prompt)"

subsection \<open>\<^verbatim>\<open>list_models\<close> of the command line\<close>

text \<open>
  Truthiness of a value. A float is zero when the digits of its mantissa are; that a
  literal with a large negative exponent is read as zero is not modelled.
\<close>

fun py_truthy :: "json \<Rightarrow> bool" where
  "py_truthy JNull = False"
| "py_truthy (JBool b) = b"
| "py_truthy (JInt i) = (i \<noteq> 0)"
| "py_truthy (JFloat f) =
     list_ex (\<lambda>c. c \<noteq> CHR ''0'' \<and> c \<noteq> CHR ''.'' \<and> c \<noteq> CHR ''-'')
       (takeWhile (\<lambda>c. c \<noteq> CHR ''e'' \<and> c \<noteq> CHR ''E'') f)"
| "py_truthy (JStr s) = (s \<noteq> [])"
| "py_truthy (JArr xs) = (xs \<noteq> [])"
| "py_truthy (JObj kvs) = (kvs \<noteq> [])"

fun is_number :: "json \<Rightarrow> bool" where
  "is_number (JInt i) = True"
| "is_number (JFloat f) = True"
| "is_number (JBool b) = True"
| "is_number v = False"

fun is_str :: "json \<Rightarrow> bool" where
  "is_str (JStr s) = True"
| "is_str v = False"

text \<open>
  \<^verbatim>\<open>format_size\<close> compares its argument with \<^verbatim>\<open>1024.0\<close> and formats it with
  \<^verbatim>\<open>.1f\<close>, dividing by \<^verbatim>\<open>1024.0\<close> in between: the comparison needs a number, and an
  \<^verbatim>\<open>int\<close> that no float can hold overflows in the division or in the formatting. The
  result is the exception raised, if one is; the text produced belongs to the
  presentation.
\<close>

definition format_size :: "json \<Rightarrow> exn option" where
  "format_size bytes_size =
     (if \<not> is_number bytes_size then
        Some (TypeError ([CHR 0x27] @ ''<'' @ [CHR 0x27] @ '' not supported between instances of ''
                @ quoted (type_name bytes_size) @ '' and '' @ quoted ''float''))
      else
        (case bytes_size of
           JInt i \<Rightarrow>
             if 2 ^ 1024 - 2 ^ 970 \<le> \<bar>i\<bar> then Some (OtherException ''int too large to convert to float'')
             else None
         | _ \<Rightarrow> None))"

text \<open>
  \<^verbatim>\<open>model.get('modified_at', 'Unknown')[:19].replace('T', ' ')\<close>: a string passes; a
  list is sliced and then has no \<^verbatim>\<open>replace\<close>; a dict refuses the slice as a key
  (\<^verbatim>\<open>TypeError\<close> up to Python 3.11, \<^verbatim>\<open>KeyError\<close> from 3.12 on; the older one is
  written here); nothing else can be subscripted.
\<close>

fun slice_replace :: "json \<Rightarrow> exn option" where
  "slice_replace (JStr s) = None"
| "slice_replace (JArr xs) =
     Some (AttributeError (quoted ''list'' @ '' object has no attribute '' @ quoted ''replace''))"
| "slice_replace (JObj kvs) = Some (TypeError (''unhashable type: '' @ quoted ''slice''))"
| "slice_replace v = Some (TypeError (quoted (type_name v) @ '' object is not subscriptable''))"

text \<open>
  The width \<^verbatim>\<open>:40\<close> of the first column is applied to \<^verbatim>\<open>self.colored(name, 'green')\<close>,
  which is a string on a terminal and \<^verbatim>\<open>name\<close> itself otherwise; a string and a number
  accept a width, \<^verbatim>\<open>None\<close>, a list and a dict do not.
\<close>

definition format_name :: "world \<Rightarrow> json \<Rightarrow> exn option" where
  "format_name w name =
     (if isatty w \<or> is_str name \<or> is_number name then None
      else Some (TypeError (''unsupported format string passed to '' @ type_name name @ ''.__format__'')))"

text \<open>One turn of \<^verbatim>\<open>for model in models\<close>, in the order of the statements.\<close>

definition model_row :: "world \<Rightarrow> json \<Rightarrow> exn + message" where
  "model_row w m =
     (case py_get m ''name'' (JStr ''Unknown'') of
        Inl e \<Rightarrow> Inl e
      | Inr name \<Rightarrow>
          (case py_get m ''size'' (JInt 0) of
             Inl e \<Rightarrow> Inl e
           | Inr sz \<Rightarrow>
               (case format_size sz of
                  Some e \<Rightarrow> Inl e
                | None \<Rightarrow>
                    (case py_get m ''modified_at'' (JStr ''Unknown'') of
                       Inl e \<Rightarrow> Inl e
                     | Inr modified \<Rightarrow>
                         (case slice_replace modified of
                            Some e \<Rightarrow> Inl e
                          | None \<Rightarrow>
                              (case format_name w name of
                                 Some e \<Rightarrow> Inl e
                               | None \<Rightarrow> Inr (ModelRow m)))))))"

fun model_rows :: "world \<Rightarrow> json list \<Rightarrow> run" where
  "model_rows w [] = ([], None)"
| "model_rows w (m # ms) =
     (case model_row w m of
        Inl e \<Rightarrow> ([], Some e)
      | Inr row \<Rightarrow> (Print row # fst (model_rows w ms), snd (model_rows w ms)))"

text \<open>
  \<^verbatim>\<open>for model in models\<close> over a value that is no list: the characters of a string and
  the keys of a dict are strings, which have no \<^verbatim>\<open>get\<close>; a number cannot be iterated.
  The value is truthy here, so the string and the dict are not empty.
\<close>

definition cli_list_models :: "world \<Rightarrow> aicli \<Rightarrow> run" where
  "cli_list_models w self =
     (let models = list_models (w_net w) (client self);
          pre = [Print (Header ''Available Models''), Request (list_models_request (client self))]
      in if \<not> py_truthy models then (pre @ [Print NoModels], None)
         else
           (case models of
              JArr ms \<Rightarrow>
                (pre @ [Print ModelsTableHead, Print ModelsRule] @ fst (model_rows w ms),
                 snd (model_rows w ms))
            | JStr s \<Rightarrow>
                (pre @ [Print ModelsTableHead, Print ModelsRule],
                 Some (AttributeError (quoted ''str'' @ '' object has no attribute '' @ quoted ''get'')))
            | JObj kvs \<Rightarrow>
                (pre @ [Print ModelsTableHead, Print ModelsRule],
                 Some (AttributeError (quoted ''str'' @ '' object has no attribute '' @ quoted ''get'')))
            | _ \<Rightarrow>
                (pre @ [Print ModelsTableHead, Print ModelsRule],
                 Some (TypeError (quoted (type_name models) @ '' object is not iterable'')))))"

subsection \<open>\<^verbatim>\<open>cmd_chat\<close>\<close>

text \<open>
  Single message with \<^verbatim>\<open>--stream\<close>: each chunk is printed and then appended to a
  string, which raises \<^verbatim>\<open>TypeError\<close> on a chunk that is no string.
\<close>

fun print_accumulate :: "json list \<Rightarrow> run" where
  "print_accumulate [] = ([], None)"
| "print_accumulate (chunk # rest) =
     (if is_str chunk
      then (Print (Chunk chunk) # fst (print_accumulate rest), snd (print_accumulate rest))
      else ([Print (Chunk chunk)],
            Some (TypeError (''can only concatenate str (not '' @ [CHR 0x22] @ type_name chunk @ [CHR 0x22]
                               @ '') to str''))))"

definition exit_commands :: "string list" where
  "exit_commands = [''/quit'', ''/exit'', ''/q'']"

text \<open>The \<^verbatim>\<open>while True\<close> loop of the interactive mode, from the call of \<^verbatim>\<open>input\<close>.\<close>

fun chat_loop :: "world \<Rightarrow> aicli \<Rightarrow> cli_args \<Rightarrow> keyboard list \<Rightarrow> run" where
  "chat_loop w self args [] = ([Print InputPrompt], Some (OtherException ''EOF when reading a line''))"
| "chat_loop w self args (CtrlC # rest) = ([Print InputPrompt, Print GoodbyeInterrupted], None)"
| "chat_loop w self args (Typed message # rest) =
     (if lower message \<in> set exit_commands then ([Print InputPrompt, Print Goodbye], None)
      else if lower message = ''/help'' then
        ([Print InputPrompt, Print HelpText] @ fst (chat_loop w self args rest),
         snd (chat_loop w self args rest))
      else if lower message = ''/clear'' then
        ([Print InputPrompt, System (if posix w then ''clear'' else ''cls'')]
           @ fst (chat_loop w self args rest),
         snd (chat_loop w self args rest))
      else if lower message = ''/models'' then
        (case cli_list_models w self of
           (t, Some e) \<Rightarrow> (Print InputPrompt # t, Some e)
         | (t, None) \<Rightarrow>
             (Print InputPrompt # t @ fst (chat_loop w self args rest),
              snd (chat_loop w self args rest)))
      else if strip message = [] then
        (Print InputPrompt # fst (chat_loop w self args rest), snd (chat_loop w self args rest))
      else if stream_flag args then
        ([Print InputPrompt, Print AIPrefix]
           @ print_stream w self message (Some (model_arg args)) None
           @ [Print BlankLine]
           @ fst (chat_loop w self args rest),
         snd (chat_loop w self args rest))
      else
        ([Print InputPrompt, Print AIPrefix,
          Request (chat_request (client self) message (Some (model_arg args)) None),
          Print (ReplyBlank (chat (w_net w) (client self) message (Some (model_arg args)) None))]
           @ fst (chat_loop w self args rest),
         snd (chat_loop w self args rest)))"

definition cmd_chat :: "world \<Rightarrow> aicli \<Rightarrow> cli_args \<Rightarrow> string option \<Rightarrow> keyboard list \<Rightarrow> run" where
  "cmd_chat w self args message kb =
     (case check_ollama_status w self of
        (t, False) \<Rightarrow> (t, None)
      | (t, True) \<Rightarrow>
          if truthy message then
            (let pre = t @ [Print (Header (''Chat with '' @ model_arg args)),
                           Print (YouLine (the message)), Print AIPrefix]
             in if stream_flag args then
                  (case print_accumulate
                          (chat_stream (w_loads w) (w_net w) (client self) (the message) (Some (model_arg args)) None) of
                     (ps, Some e) \<Rightarrow>
                       (pre @ [Request (chat_stream_request (client self) (the message) (Some (model_arg args)) None)]
                          @ ps, Some e)
                   | (ps, None) \<Rightarrow>
                       (pre @ [Request (chat_stream_request (client self) (the message) (Some (model_arg args)) None)]
                          @ ps @ [Print EndOfLine], None))
                else (pre @ print_chat w self (the message) (Some (model_arg args)) None, None))
          else
            (let pre = t @ [Print (Header (''Interactive Chat with '' @ model_arg args)),
                           Print InteractiveHint]
             in (pre @ fst (chat_loop w self args kb), snd (chat_loop w self args kb))))"

subsection \<open>The one-shot commands\<close>

definition nl :: string where
  "nl = [CHR 0x0A]"

definition code_system_prompt :: string where
  "code_system_prompt =
     ''You are an expert programmer. Provide clean, well-commented code solutions. '' @ nl
     @ ''        Always include explanations of how the code works. Format code blocks properly with language markers.''"

definition cmd_code :: "world \<Rightarrow> aicli \<Rightarrow> cli_args \<Rightarrow> string \<Rightarrow> run" where
  "cmd_code w self args prompt_arg =
     (case check_ollama_status w self of
        (t, False) \<Rightarrow> (t, None)
      | (t, True) \<Rightarrow>
          (t @ [Print (Header ''Code Assistant''), Print (RequestLine prompt_arg), Print AIResponseLabel]
             @ respond w self args prompt_arg (Some code_system_prompt), None))"

definition explain_system_prompt :: string where
  "explain_system_prompt =
     ''You are a helpful teacher. Explain concepts clearly and thoroughly. '' @ nl
     @ ''        Use examples when helpful. Break down complex topics into understandable parts.''"

definition cmd_explain :: "world \<Rightarrow> aicli \<Rightarrow> cli_args \<Rightarrow> string \<Rightarrow> run" where
  "cmd_explain w self args topic =
     (case check_ollama_status w self of
        (t, False) \<Rightarrow> (t, None)
      | (t, True) \<Rightarrow>
          (let tail = (\<lambda>prompt_text.
                 (t @ [Print (Header ''Explanation''), Print (TopicLine topic), Print ExplanationLabel]
                    @ respond w self args prompt_text (Some explain_system_prompt), None))
           in if isfile w topic then
                (case read_file w topic of
                   Inl e \<Rightarrow> (t @ [Print (FileReadError e)], None)
                 | Inr content \<Rightarrow>
                     tail (''Please explain this code:'' @ nl @ nl @ ''```'' @ nl @ content @ nl @ ''```''))
              else tail (''Please explain: '' @ topic)))"

definition translate_system_prompt :: "string \<Rightarrow> string" where
  "translate_system_prompt to =
     ''You are a professional translator. Translate the given text to '' @ to @ '' accurately, '' @ nl
     @ ''        maintaining the original meaning and context. Provide only the translation unless asked otherwise.''"

definition cmd_translate :: "world \<Rightarrow> aicli \<Rightarrow> cli_args \<Rightarrow> string \<Rightarrow> string \<Rightarrow> run" where
  "cmd_translate w self args text_arg to =
     (case check_ollama_status w self of
        (t, False) \<Rightarrow> (t, None)
      | (t, True) \<Rightarrow>
          (t @ [Print (Header (''Translation to '' @ to)), Print (OriginalLine text_arg), Print TranslationLabel]
             @ respond w self args (''Translate this to '' @ to @ '': '' @ text_arg)
                 (Some (translate_system_prompt to)), None))"

definition summarize_system_prompt :: string where
  "summarize_system_prompt =
     ''You are an expert at creating concise, informative summaries. '' @ nl
     @ ''        Capture the key points and main ideas while being clear and comprehensive.''"

definition cmd_summarize :: "world \<Rightarrow> aicli \<Rightarrow> cli_args \<Rightarrow> string \<Rightarrow> run" where
  "cmd_summarize w self args input =
     (case check_ollama_status w self of
        (t, False) \<Rightarrow> (t, None)
      | (t, True) \<Rightarrow>
          (let tail = (\<lambda>prompt_text input_desc.
                 (t @ [Print (Header ''Summary''), Print (InputLine input_desc), Print SummaryLabel]
                    @ respond w self args prompt_text (Some summarize_system_prompt), None))
           in if isfile w input then
                (case read_file w input of
                   Inl e \<Rightarrow> (t @ [Print (FileReadError e)], None)
                 | Inr content \<Rightarrow>
                     tail (''Please summarize this content:'' @ nl @ nl @ content) (''File: '' @ input))
              else tail (''Please summarize: '' @ input) ''Text input''))"

definition review_system_prompt :: string where
  "review_system_prompt =
     ''You are an experienced code reviewer. Analyze code for:'' @ nl
     @ ''        - Bugs and potential issues'' @ nl
     @ ''        - Performance improvements'' @ nl
     @ ''        - Best practices'' @ nl
     @ ''        - Security concerns'' @ nl
     @ ''        - Code style and readability'' @ nl
     @ ''        Provide constructive feedback with specific suggestions.''"

definition cmd_review :: "world \<Rightarrow> aicli \<Rightarrow> cli_args \<Rightarrow> string \<Rightarrow> run" where
  "cmd_review w self args file =
     (case check_ollama_status w self of
        (t, False) \<Rightarrow> (t, None)
      | (t, True) \<Rightarrow>
          if \<not> isfile w file then (t @ [Print (FileNotFound file)], None)
          else
            (case read_file w file of
               Inl e \<Rightarrow> (t @ [Print (FileReadError e)], None)
             | Inr content \<Rightarrow>
                 (t @ [Print (Header (''Code Review: '' @ file)), Print (ReviewingLine file), Print ReviewLabel]
                    @ respond w self args
                        (''Please review this code and provide feedback:'' @ nl @ nl @ ''```'' @ nl @ content @ nl @ ''```'')
                        (Some review_system_prompt), None)))"

subsection \<open>\<^verbatim>\<open>main\<close>, after the arguments are parsed\<close>

definition main :: "world \<Rightarrow> cli_args \<Rightarrow> keyboard list \<Rightarrow> run" where
  "main w args kb =
     (let cli = AICLI_init in
      case command args of
        NoCommand \<Rightarrow> cmd_chat w cli args None kb
      | Chat message interactive \<Rightarrow> cmd_chat w cli args message kb
      | Code prompt_arg \<Rightarrow> cmd_code w cli args prompt_arg
      | Explain topic \<Rightarrow> cmd_explain w cli args topic
      | Translate text_arg to \<Rightarrow> cmd_translate w cli args text_arg to
      | Summarize input \<Rightarrow> cmd_summarize w cli args input
      | Review file \<Rightarrow> cmd_review w cli args file
      | Models \<Rightarrow> cli_list_models w cli)"

text \<open>The requests of a run, and whether one of them is a \<^verbatim>\<open>POST\<close>.\<close>

fun requests_of :: "event list \<Rightarrow> request list" where
  "requests_of [] = []"
| "requests_of (Request r # es) = r # requests_of es"
| "requests_of (e # es) = requests_of es"

definition posts_of :: "event list \<Rightarrow> request list" where
  "posts_of es = filter (\<lambda>r. http_method r = POST) (requests_of es)"

section \<open>Servers and surroundings for the scenarios\<close>

text \<open>
  A response with the given status whose body is the given lines: \<^verbatim>\<open>text\<close> is the
  lines joined by line feeds, \<^verbatim>\<open>json()\<close> decodes that text, and the line iterator
  delivers the lines and ends. \<open>serve\<close> answers every request with one response,
  \<open>refuse\<close> fails every request with one exception.
\<close>

definition join_lines :: "string list \<Rightarrow> string" where
  "join_lines ls = concat (case ls of [] \<Rightarrow> [] | l # rest \<Rightarrow> l # map (\<lambda>x. nl @ x) rest)"

definition http_response :: "int \<Rightarrow> string list \<Rightarrow> response" where
  "http_response code ls =
     \<lparr>status_code = code, body_text = join_lines ls, json_result = json_loads (join_lines ls),
      iter_lines = ls, iter_error = None\<rparr>"

definition serve :: "response \<Rightarrow> transport" where
  "serve r = (\<lambda>req. Inr r)"

definition refuse :: "exn \<Rightarrow> transport" where
  "refuse e = (\<lambda>req. Inl e)"

text \<open>
  Surroundings with one file, \<^verbatim>\<open>notes.txt\<close>, that exists and cannot be read; no other
  path is a file.
\<close>

definition locked_file_world :: "transport \<Rightarrow> world" where
  "locked_file_world t =
     \<lparr>w_net = t, w_loads = json_loads,
      isfile = (\<lambda>path. path = ''notes.txt''),
      read_file = (\<lambda>path. Inl (OtherException ''Permission denied'')),
      isatty = True, posix = True\<rparr>"

definition plain_args :: "command \<Rightarrow> cli_args" where
  "plain_args c = \<lparr>command = c, model_arg = ''llama3-small-q3-k-s'', stream_flag = False\<rparr>"

section \<open>The decoder's contract in the spec's words\<close>

text \<open>
  The fragment a line carries, as the spec's stream decoder has it: an empty line and a
  line that does not decode carry none; a line that decodes to a JSON object carries the
  value of its \<^verbatim>\<open>response\<close> field, if it has one. \<open>fragments\<close> is the chunk
  sequence the spec promises for a sequence of lines; \<open>tolerated\<close> are the lines the
  spec's decoder speaks of: empty, malformed (the decoder reports a decode error) or a
  JSON object.
\<close>

definition fragment_of :: "decoder \<Rightarrow> string \<Rightarrow> json option" where
  "fragment_of loads line =
     (if line = [] then None
      else (case loads line of
              Inr (JObj kvs) \<Rightarrow> map_of kvs ''response''
            | _ \<Rightarrow> None))"

definition fragments :: "decoder \<Rightarrow> string list \<Rightarrow> json list" where
  "fragments loads ls = List.map_filter (fragment_of loads) ls"

definition tolerated :: "decoder \<Rightarrow> string \<Rightarrow> bool" where
  "tolerated loads line =
     (line = [] \<or>
      (case loads line of
         Inl e \<Rightarrow> is_JSONDecodeError e
       | Inr d \<Rightarrow> is_dict d))"

section \<open>Facts about the operators and the scenario texts\<close>

lemma map_of_response:
  "key \<in> set (map fst kvs) \<Longrightarrow> \<exists>v. map_of kvs key = Some v"
  by (induction kvs) auto

lemma map_of_no_response:
  "key \<notin> set (map fst kvs) \<Longrightarrow> map_of kvs key = None"
  by (simp add: map_of_eq_None_iff)

lemma join_lines_single: "join_lines [l] = l"
  by (simp add: join_lines_def)

lemma loads_scenario_A:
  \<open>json_loads ''{"response": "4"}'' = Inr (JObj [(''response'', JStr ''4'')])\<close>
  by code_simp

lemma loads_done:
  \<open>json_loads ''{"done":true}'' = Inr (JObj [(''done'', JBool True)])\<close>
  by code_simp

lemma str_int_500: "str_int 500 = ''500''"
  by code_simp

section \<open>The non-streaming call\<close>

text \<open>
  Claim C5, as the code has it. \<open>chat\<close> returns by cases on what the server did. On
  status 200 with a body that is a JSON object holding \<^verbatim>\<open>response\<close> it returns that
  value (the body \<^verbatim>\<open>{"response": "4"}\<close> gives exactly \<^verbatim>\<open>4\<close>); on every other status, a
  2xx status other than 200 included, it returns a text carrying the status code and the
  body; when the request fails it returns a text carrying the description of the cause.
  It raises nothing: whatever exception the body of its \<^verbatim>\<open>try\<close> raises becomes the
  returned text.
\<close>


theorem C5_chat_returns_by_case:
  \<open>(net (chat_request self message mdl sp) = Inr r \<and> status_code r = 200
      \<and> json_result r = Inr (JObj kvs) \<and> map_of kvs ''response'' = Some v
        \<longrightarrow> chat net self message mdl sp = v)
   \<and> (net (chat_request self message mdl sp) = Inr r \<and> status_code r \<noteq> 200
        \<longrightarrow> chat net self message mdl sp
              = JStr (''Error: '' @ str_int (status_code r) @ '' - '' @ body_text r))
   \<and> (net (chat_request self message mdl sp) = Inl e
        \<longrightarrow> chat net self message mdl sp = JStr (''Connection error: '' @ str_exn e))
   \<and> (chat_try net self message mdl sp = Inl e
        \<longrightarrow> chat net self message mdl sp = JStr (''Connection error: '' @ str_exn e))
   \<and> chat (serve (http_response 200 [''{"response": "4"}''])) self ''2+2'' mdl sp = JStr ''4''\<close>
  by (simp add: chat_def chat_try_def serve_def http_response_def join_lines_single loads_scenario_A)

theorem C5_chat_returns_by_case_witness:
  \<open>chat (serve (http_response 200 [''{"response": "4"}''])) AIClient_init ''2+2'' None None = JStr ''4''
   \<and> chat (serve (http_response 500 [''boom''])) AIClient_init ''2+2'' None None = JStr ''Error: 500 - boom''
   \<and> chat (refuse (OtherException ''timed out'')) AIClient_init ''2+2'' None None
        = JStr ''Connection error: timed out''\<close>
proof -
  let ?ok = \<open>http_response 200 [''{"response": "4"}'']\<close>
  let ?bad = \<open>http_response 500 [''boom'']\<close>
  have a: \<open>serve ?ok (chat_request AIClient_init ''2+2'' None None) = Inr ?ok \<and> status_code ?ok = 200
      \<and> json_result ?ok = Inr (JObj [(''response'', JStr ''4'')])
      \<and> map_of [(''response'', JStr ''4'')] ''response'' = Some (JStr ''4'')\<close>
    by (simp add: serve_def http_response_def join_lines_single loads_scenario_A)
  have b: \<open>serve ?bad (chat_request AIClient_init ''2+2'' None None) = Inr ?bad \<and> status_code ?bad \<noteq> 200\<close>
    by (simp add: serve_def http_response_def)
  have c: \<open>refuse (OtherException ''timed out'') (chat_request AIClient_init ''2+2'' None None)
             = Inl (OtherException ''timed out'')\<close>
    by (simp add: refuse_def)
  from a C5_chat_returns_by_case [of \<open>serve ?ok\<close> AIClient_init \<open>''2+2''\<close> None None ?ok
        \<open>[(''response'', JStr ''4'')]\<close> \<open>JStr ''4''\<close>]
  have 1: \<open>chat (serve ?ok) AIClient_init ''2+2'' None None = JStr ''4''\<close> by blast
  from b C5_chat_returns_by_case [of \<open>serve ?bad\<close> AIClient_init \<open>''2+2''\<close> None None ?bad]
  have \<open>chat (serve ?bad) AIClient_init ''2+2'' None None
          = JStr (''Error: '' @ str_int (status_code ?bad) @ '' - '' @ body_text ?bad)\<close> by blast
  then have 2: \<open>chat (serve ?bad) AIClient_init ''2+2'' None None = JStr ''Error: 500 - boom''\<close>
    by (simp add: http_response_def join_lines_single str_int_500)
  from c C5_chat_returns_by_case [of \<open>refuse (OtherException ''timed out'')\<close> AIClient_init \<open>''2+2''\<close>
        None None _ _ _ \<open>OtherException ''timed out''\<close>]
  have 3: \<open>chat (refuse (OtherException ''timed out'')) AIClient_init ''2+2'' None None
            = JStr ''Connection error: timed out''\<close> by simp
  from 1 2 3 show ?thesis by blast
qed

text \<open>
  The claim as it was stated fails for a success status other than 200: the test is
  \<^verbatim>\<open>response.status_code == 200\<close>, so a 201 answer that carries the completion is
  returned as an error text.
\<close>

theorem C5_created_is_reported_as_error:
  \<open>chat (serve (http_response 201 [''{"response": "4"}''])) AIClient_init ''2+2'' None None
     = JStr ''Error: 201 - {"response": "4"}''\<close>
  by code_simp

text \<open>
  Claim C9. When the server answers 200 with a JSON object that has no \<^verbatim>\<open>response\<close>
  field, \<open>chat\<close> returns the text \<^verbatim>\<open>No response received\<close>. The value is the one it
  returns when the server generated exactly that text: a caller cannot tell the two
  apart.
\<close>

theorem C9_missing_response_field:
  \<open>net (chat_request self message mdl sp) = Inr r \<and> status_code r = 200
      \<and> json_result r = Inr (JObj kvs) \<and> ''response'' \<notin> set (map fst kvs)
    \<longrightarrow> chat net self message mdl sp = JStr ''No response received''
        \<and> chat net self message mdl sp
            = chat (serve (r\<lparr>json_result := Inr (JObj [(''response'', JStr ''No response received'')])\<rparr>))
                self message mdl sp\<close>
proof -
  have "''response'' \<notin> set (map fst kvs) \<Longrightarrow> map_of kvs ''response'' = None"
    by (rule map_of_no_response)
  then show ?thesis
    by (auto simp: chat_def chat_try_def serve_def)
qed

theorem C9_missing_response_field_witness:
  \<open>chat (serve (http_response 200 [''{"done":true}''])) AIClient_init ''hi'' None None
     = JStr ''No response received''\<close>
proof -
  let ?r = \<open>http_response 200 [''{"done":true}'']\<close>
  have \<open>serve ?r (chat_request AIClient_init ''hi'' None None) = Inr ?r \<and> status_code ?r = 200
      \<and> json_result ?r = Inr (JObj [(''done'', JBool True)])
      \<and> ''response'' \<notin> set (map fst [(''done'', JBool True)])\<close>
    by (simp add: serve_def http_response_def join_lines_single loads_done)
  with C9_missing_response_field [of \<open>serve ?r\<close> AIClient_init \<open>''hi''\<close> None None ?r
        \<open>[(''done'', JBool True)]\<close>]
  show ?thesis by blast
qed

section \<open>The stream decoder\<close>


lemma loads_lo: \<open>json_loads ''{"response":"lo"}'' = Inr (JObj [(''response'', JStr ''lo'')])\<close>
  by code_simp


text \<open>
  A line that the loop passes over (an empty line, a line on which the decoder reports a
  decode error, an object without \<^verbatim>\<open>response\<close>) can be taken out of the sequence, at
  any place and whatever the other lines are, without changing what the loop yields.
\<close>

lemma decode_lines_skip:
  "bad = [] \<or> (\<exists>m. loads bad = Inl (JSONDecodeError m))
     \<or> (\<exists>kvs. loads bad = Inr (JObj kvs) \<and> ''response'' \<notin> set (map fst kvs))
   \<Longrightarrow> decode_lines loads (pre @ bad # post) = decode_lines loads (pre @ post)"
proof (induction pre)
  case Nil
  then show ?case by auto
next
  case (Cons line pre)
  then have "decode_lines loads (pre @ bad # post) = decode_lines loads (pre @ post)" by simp
  then show ?case by (simp split: sum.splits bool.splits)
qed

text \<open>While no exception leaves the loop, what it yields for a sequence of lines is what it
  yields for a first part followed by what it yields for the rest.\<close>

lemma decode_lines_append:
  "snd (decode_lines loads xs) = None
   \<Longrightarrow> decode_lines loads (xs @ ys)
        = (fst (decode_lines loads xs) @ fst (decode_lines loads ys), snd (decode_lines loads ys))"
  by (induction xs) (auto split: sum.splits bool.splits if_splits)

text \<open>On the lines the spec speaks of the loop yields the fragments and no exception leaves it.\<close>

lemma decode_lines_tolerated:
  "\<forall>line \<in> set ls. tolerated loads line \<Longrightarrow> decode_lines loads ls = (fragments loads ls, None)"
proof (induction ls)
  case Nil
  show ?case by (simp add: fragments_def)
next
  case (Cons line rest)
  then have ih: "decode_lines loads rest = (fragments loads rest, None)" by simp
  from Cons.prems have tol: "tolerated loads line" by simp
  show ?case
  proof (cases "line = []")
    case True
    then show ?thesis using ih by (simp add: fragments_def fragment_of_def)
  next
    case ne: False
    show ?thesis
    proof (cases "loads line")
      case (Inl e)
      with tol ne have "is_JSONDecodeError e" by (simp add: tolerated_def)
      with Inl ne ih show ?thesis by (simp add: fragments_def fragment_of_def)
    next
      case (Inr d)
      with tol ne obtain kvs where d: "d = JObj kvs" by (cases d) (auto simp: tolerated_def)
      show ?thesis
      proof (cases "map_of kvs ''response''")
        case None
        then have "''response'' \<notin> set (map fst kvs)" by (metis map_of_response option.distinct(1))
        with Inr d ne ih None show ?thesis
          by (simp add: fragments_def fragment_of_def)
      next
        case (Some v)
        then have "''response'' \<in> set (map fst kvs)" by (metis map_of_no_response option.distinct(1))
        with Inr d ne ih Some show ?thesis
          by (simp add: fragments_def fragment_of_def)
      qed
    qed
  qed
qed


text \<open>
  Claim C3, as the code has it. The chunk sequence ends when the transport reaches the
  end of the stream, and a done marker does not end it: the loop never looks at
  \<^verbatim>\<open>done\<close>. A marker line (a JSON object without \<^verbatim>\<open>response\<close>) yields nothing and the
  lines after it are decoded as if it were not there. For the lines
  \<^verbatim>\<open>{"response":"Hel"}\<close>, \<^verbatim>\<open>{"response":"lo"}\<close>, \<^verbatim>\<open>{"done":true}\<close> followed by the end of
  the stream the chunks are exactly \<^verbatim>\<open>Hel\<close> and \<^verbatim>\<open>lo\<close>.
\<close>

theorem C3_stream_ends_at_end_of_stream:
  \<open>(net (chat_stream_request self message mdl sp) = Inr r \<and> iter_lines r = pre @ marker # post
      \<and> loads marker = Inr (JObj kvs) \<and> ''response'' \<notin> set (map fst kvs)
      \<longrightarrow> chat_stream loads net self message mdl sp
            = chat_stream loads (serve (r\<lparr>iter_lines := pre @ post\<rparr>)) self message mdl sp)
   \<and> (net (chat_stream_request self message mdl sp) = Inr r \<and> iter_lines r = pre @ post
      \<and> snd (decode_lines loads pre) = None
      \<longrightarrow> chat_stream loads net self message mdl sp
            = fst (decode_lines loads pre)
              @ chat_stream loads (serve (r\<lparr>iter_lines := post\<rparr>)) self message mdl sp)
   \<and> chat_stream loads (serve (r\<lparr>iter_lines := [], iter_error := None\<rparr>)) self message mdl sp = []
   \<and> chat_stream json_loads
        (serve (http_response 200 [''{"response":"Hel"}'', ''{"response":"lo"}'', ''{"done":true}'']))
        self message mdl sp = [JStr ''Hel'', JStr ''lo'']\<close>
proof (intro conjI impI)
  assume a: \<open>net (chat_stream_request self message mdl sp) = Inr r \<and> iter_lines r = pre @ marker # post
      \<and> loads marker = Inr (JObj kvs) \<and> ''response'' \<notin> set (map fst kvs)\<close>
  then have "decode_lines loads (pre @ marker # post) = decode_lines loads (pre @ post)"
    by (intro decode_lines_skip) blast
  with a show \<open>chat_stream loads net self message mdl sp
            = chat_stream loads (serve (r\<lparr>iter_lines := pre @ post\<rparr>)) self message mdl sp\<close>
    by (simp add: chat_stream_def serve_def)
next
  assume b: \<open>net (chat_stream_request self message mdl sp) = Inr r \<and> iter_lines r = pre @ post
      \<and> snd (decode_lines loads pre) = None\<close>
  then have "decode_lines loads (pre @ post)
               = (fst (decode_lines loads pre) @ fst (decode_lines loads post), snd (decode_lines loads post))"
    by (intro decode_lines_append) blast
  with b show \<open>chat_stream loads net self message mdl sp
            = fst (decode_lines loads pre)
              @ chat_stream loads (serve (r\<lparr>iter_lines := post\<rparr>)) self message mdl sp\<close>
    by (simp add: chat_stream_def serve_def split: prod.splits option.splits)
next
  show \<open>chat_stream loads (serve (r\<lparr>iter_lines := [], iter_error := None\<rparr>)) self message mdl sp = []\<close>
    by (simp add: chat_stream_def serve_def)
next
  have \<open>decode_lines json_loads [''{"response":"Hel"}'', ''{"response":"lo"}'', ''{"done":true}'']
          = ([JStr ''Hel'', JStr ''lo''], None)\<close>
    by code_simp
  then show \<open>chat_stream json_loads
        (serve (http_response 200 [''{"response":"Hel"}'', ''{"response":"lo"}'', ''{"done":true}'']))
        self message mdl sp = [JStr ''Hel'', JStr ''lo'']\<close>
    by (simp add: chat_stream_def serve_def http_response_def)
qed

theorem C3_stream_ends_at_end_of_stream_witness:
  \<open>chat_stream json_loads
      (serve (http_response 200 [''{"response":"Hel"}'', ''{"done":true}'', ''{"response":"lo"}'']))
      AIClient_init ''hi'' None None
    = chat_stream json_loads
      (serve ((http_response 200 [''{"response":"Hel"}'', ''{"done":true}'', ''{"response":"lo"}''])
                \<lparr>iter_lines := [''{"response":"Hel"}''] @ [''{"response":"lo"}'']\<rparr>))
      AIClient_init ''hi'' None None\<close>
proof -
  let ?r = \<open>http_response 200 [''{"response":"Hel"}'', ''{"done":true}'', ''{"response":"lo"}'']\<close>
  have \<open>serve ?r (chat_stream_request AIClient_init ''hi'' None None) = Inr ?r
      \<and> iter_lines ?r = [''{"response":"Hel"}''] @ ''{"done":true}'' # [''{"response":"lo"}'']
      \<and> json_loads ''{"done":true}'' = Inr (JObj [(''done'', JBool True)])
      \<and> ''response'' \<notin> set (map fst [(''done'', JBool True)])\<close>
    by (simp add: serve_def http_response_def loads_done)
  with C3_stream_ends_at_end_of_stream [of \<open>serve ?r\<close> AIClient_init \<open>''hi''\<close> None None ?r
        \<open>[''{"response":"Hel"}'']\<close> \<open>''{"done":true}''\<close> \<open>[''{"response":"lo"}'']\<close>
        json_loads \<open>[(''done'', JBool True)]\<close>]
  show ?thesis by blast
qed

text \<open>
  The claim as it was stated fails: a line that follows the done marker still yields its
  chunk.
\<close>

theorem C3_chunk_after_done_marker:
  \<open>chat_stream json_loads (serve (http_response 200 [''{"done":true}'', ''{"response":"late"}'']))
      AIClient_init ''hi'' None None = [JStr ''late'']\<close>
  by code_simp




text \<open>
  Claim C10, as the code has it. When the request itself raises, the generator yields
  exactly one chunk, \<^verbatim>\<open>Connection error: \<close> followed by the description of the cause,
  and ends. When the transfer breaks during iteration, the chunks of the lines delivered
  before the failure come first and that one chunk is the last. The failure is a chunk,
  never an exception of the generator.
\<close>

theorem C10_transport_failure_in_band:
  \<open>(net (chat_stream_request self message mdl sp) = Inl e
      \<longrightarrow> chat_stream loads net self message mdl sp = [JStr (''Connection error: '' @ str_exn e)])
   \<and> (net (chat_stream_request self message mdl sp) = Inr r \<and> iter_error r = Some e
       \<and> snd (decode_lines loads (iter_lines r)) = None
      \<longrightarrow> chat_stream loads net self message mdl sp
            = fst (decode_lines loads (iter_lines r)) @ [JStr (''Connection error: '' @ str_exn e)])\<close>
  by (auto simp: chat_stream_def connection_error_def split: prod.splits option.splits)

theorem C10_transport_failure_in_band_witness:
  \<open>chat_stream json_loads (refuse (OtherException ''Connection refused'')) AIClient_init ''hi'' None None
     = [JStr ''Connection error: Connection refused'']
   \<and> chat_stream json_loads
       (serve ((http_response 200 [''{"response":"lo"}''])\<lparr>iter_error := Some (OtherException ''Connection broken'')\<rparr>))
       AIClient_init ''hi'' None None
     = [JStr ''lo'', JStr ''Connection error: Connection broken'']\<close>
proof -
  let ?r = \<open>(http_response 200 [''{"response":"lo"}''])\<lparr>iter_error := Some (OtherException ''Connection broken'')\<rparr>\<close>
  have d: \<open>decode_lines json_loads [''{"response":"lo"}''] = ([JStr ''lo''], None)\<close>
    by (simp add: loads_lo)
  have a: \<open>refuse (OtherException ''Connection refused'') (chat_stream_request AIClient_init ''hi'' None None)
            = Inl (OtherException ''Connection refused'')\<close>
    by (simp add: refuse_def)
  have b: \<open>serve ?r (chat_stream_request AIClient_init ''hi'' None None) = Inr ?r
      \<and> iter_error ?r = Some (OtherException ''Connection broken'')
      \<and> snd (decode_lines json_loads (iter_lines ?r)) = None\<close>
    by (simp add: serve_def http_response_def loads_lo)
  from a C10_transport_failure_in_band [of \<open>refuse (OtherException ''Connection refused'')\<close> AIClient_init \<open>''hi''\<close> None None
        \<open>OtherException ''Connection refused''\<close> json_loads]
  have 1: \<open>chat_stream json_loads (refuse (OtherException ''Connection refused'')) AIClient_init ''hi'' None None
     = [JStr ''Connection error: Connection refused'']\<close> by simp
  from b C10_transport_failure_in_band [of \<open>serve ?r\<close> AIClient_init \<open>''hi''\<close> None None
        \<open>OtherException ''Connection broken''\<close> json_loads ?r]
  have \<open>chat_stream json_loads (serve ?r) AIClient_init ''hi'' None None
     = fst (decode_lines json_loads (iter_lines ?r))
         @ [JStr (''Connection error: '' @ str_exn (OtherException ''Connection broken''))]\<close> by blast
  then have 2: \<open>chat_stream json_loads (serve ?r) AIClient_init ''hi'' None None
     = [JStr ''lo'', JStr ''Connection error: Connection broken'']\<close>
    by (simp add: http_response_def loads_lo)
  from 1 2 show ?thesis by blast
qed

text \<open>
  The claim as it was stated fails: a transfer that breaks after one line gives two
  chunks, the fragment and the error text.
\<close>

theorem C10_two_chunks_on_late_failure:
  \<open>chat_stream json_loads
      (serve ((http_response 200 [''{"response":"Hel"}''])\<lparr>iter_error := Some (OtherException ''Connection broken'')\<rparr>))
      AIClient_init ''hi'' None None
    = [JStr ''Hel'', JStr ''Connection error: Connection broken'']\<close>
  by code_simp

section \<open>Streaming against the non-streaming call\<close>

text \<open>
  Where the two modes agree: on status 200, when the fragments of the streamed lines are
  strings whose concatenation is the text of the non-streamed body; and when the request
  fails in both modes. The streaming path never reads the status code.
\<close>

lemma stream_agrees_with_chat_on_200:
  assumes "net (chat_stream_request self message mdl sp) = Inr rs"
    and "iter_error rs = None"
    and "\<forall>line \<in> set (iter_lines rs). tolerated loads line"
    and "fragments loads (iter_lines rs) = map JStr ts"
    and "net (chat_request self message mdl sp) = Inr r"
    and "status_code r = 200"
    and "json_result r = Inr (JObj kvs)"
    and "map_of kvs ''response'' = Some (JStr (concat ts))"
  shows "chat_stream loads net self message mdl sp = map JStr ts
         \<and> chat net self message mdl sp = JStr (concat ts)"
proof -
  from assms(3) have "decode_lines loads (iter_lines rs) = (fragments loads (iter_lines rs), None)"
    by (rule decode_lines_tolerated)
  with assms(1,2,4) have "chat_stream loads net self message mdl sp = map JStr ts"
    by (simp add: chat_stream_def)
  moreover from assms(5-8) have "chat net self message mdl sp = JStr (concat ts)"
    by (simp add: chat_def chat_try_def)
  ultimately show ?thesis by blast
qed

lemma stream_agrees_with_chat_on_failure:
  assumes "net (chat_stream_request self message mdl sp) = Inl e"
    and "net (chat_request self message mdl sp) = Inl e"
  shows "chat_stream loads net self message mdl sp = [chat net self message mdl sp]"
  using assms by (simp add: chat_stream_def chat_def chat_try_def connection_error_def)

lemma chat_stream_ignores_status:
  "chat_stream loads (serve (r\<lparr>status_code := c\<rparr>)) self message mdl sp
     = chat_stream loads (serve r) self message mdl sp"
  by (simp add: chat_stream_def serve_def)

text \<open>
  Claim C7, at a server that answers the request the same way in both modes, with status
  404 and the body \<^verbatim>\<open>{"error":"model not found"}\<close>: \<open>chat\<close> returns the text
  \<^verbatim>\<open>Error: 404 - {"error":"model not found"}\<close>, while \<open>chat_stream\<close> yields no chunk
  at all, so the concatenation of its fragments is empty.
\<close>

theorem C7_stream_drops_http_error:
  \<open>chat (serve (http_response 404 [''{"error":"model not found"}''])) AIClient_init ''hi'' (Some ''nosuch'') None
      = JStr ''Error: 404 - {"error":"model not found"}''
   \<and> chat_stream json_loads (serve (http_response 404 [''{"error":"model not found"}'']))
        AIClient_init ''hi'' (Some ''nosuch'') None = []\<close>
  by code_simp

section \<open>The model catalogue\<close>

lemma loads_catalog:
  \<open>json_loads ''{"models": [{"name": "llama3"}]}''
     = Inr (JObj [(''models'', JArr [JObj [(''name'', JStr ''llama3'')]])])\<close>
  by code_simp

lemma loads_html: \<open>json_loads ''<html>'' = Inl (JSONDecodeError ''Expecting value'')\<close>
  by code_simp

lemma loads_empty_object: \<open>json_loads ''{}'' = Inr (JObj [])\<close>
  by code_simp

text \<open>
  Claim C8, as the code has it. What \<open>list_models\<close> returns is determined by the
  server's answer to its one request, so two calls that get the same answer return equal
  values. When the request fails, when the status is not 200, when the body does not
  decode or decodes to something that is no JSON object, and when the object has no
  \<^verbatim>\<open>models\<close> field, it returns the empty list. When the field is present its value is
  returned as it is, whatever it is. Nothing is raised: whatever exception the body of
  its \<^verbatim>\<open>try\<close> raises becomes the empty list.
\<close>

theorem C8_list_models_result_by_case:
  \<open>(net1 (list_models_request self) = net2 (list_models_request self)
      \<longrightarrow> list_models net1 self = list_models net2 self)
   \<and> (net (list_models_request self) = Inl e \<longrightarrow> list_models net self = JArr [])
   \<and> (net (list_models_request self) = Inr r
       \<and> (status_code r \<noteq> 200 \<or> json_result r = Inl e \<or> (\<exists>d. json_result r = Inr d \<and> \<not> is_dict d))
      \<longrightarrow> list_models net self = JArr [])
   \<and> (net (list_models_request self) = Inr r \<and> status_code r = 200
       \<and> json_result r = Inr (JObj kvs) \<and> ''models'' \<notin> set (map fst kvs)
      \<longrightarrow> list_models net self = JArr [])
   \<and> (net (list_models_request self) = Inr r \<and> status_code r = 200
       \<and> json_result r = Inr (JObj kvs) \<and> map_of kvs ''models'' = Some v
      \<longrightarrow> list_models net self = v)
   \<and> (list_models_try net self = Inl e \<longrightarrow> list_models net self = JArr [])\<close>
proof -
  have nd: "\<And>d k v. \<not> is_dict d \<Longrightarrow> \<exists>x. py_get d k v = Inl x"
    subgoal for d k v by (cases d) auto
    done
  have nk: "''models'' \<notin> set (map fst kvs) \<Longrightarrow> map_of kvs ''models'' = None"
    by (rule map_of_no_response)
  show ?thesis
    using nk by (auto simp: list_models_def list_models_try_def dest: nd[of _ "''models''" "JArr []"])
qed

theorem C8_list_models_result_by_case_witness:
  \<open>list_models (serve (http_response 200 [''{"models": [{"name": "llama3"}]}''])) AIClient_init
     = JArr [JObj [(''name'', JStr ''llama3'')]]
   \<and> list_models (refuse (OtherException ''Connection refused'')) AIClient_init = JArr []
   \<and> list_models (serve (http_response 200 [''<html>''])) AIClient_init = JArr []
   \<and> list_models (serve (http_response 200 [''{}''])) AIClient_init = JArr []\<close>
proof -
  let ?r = \<open>http_response 200 [''{"models": [{"name": "llama3"}]}'']\<close>
  let ?h = \<open>http_response 200 [''<html>'']\<close>
  let ?o = \<open>http_response 200 [''{}'']\<close>
  have a: \<open>serve ?r (list_models_request AIClient_init) = Inr ?r \<and> status_code ?r = 200
      \<and> json_result ?r = Inr (JObj [(''models'', JArr [JObj [(''name'', JStr ''llama3'')]])])
      \<and> map_of [(''models'', JArr [JObj [(''name'', JStr ''llama3'')]])] ''models''
          = Some (JArr [JObj [(''name'', JStr ''llama3'')]])\<close>
    by (simp add: serve_def http_response_def join_lines_single loads_catalog)
  have s: \<open>serve ?r (list_models_request AIClient_init) = serve ?r (list_models_request AIClient_init)\<close>
    by simp
  have b: \<open>refuse (OtherException ''Connection refused'') (list_models_request AIClient_init)
             = Inl (OtherException ''Connection refused'')\<close>
    by (simp add: refuse_def)
  have c: \<open>serve ?h (list_models_request AIClient_init) = Inr ?h
      \<and> (status_code ?h \<noteq> 200 \<or> json_result ?h = Inl (JSONDecodeError ''Expecting value'')
          \<or> (\<exists>d. json_result ?h = Inr d \<and> \<not> is_dict d))\<close>
    by (simp add: serve_def http_response_def join_lines_single loads_html)
  have d: \<open>serve ?o (list_models_request AIClient_init) = Inr ?o \<and> status_code ?o = 200
      \<and> json_result ?o = Inr (JObj []) \<and> ''models'' \<notin> set (map fst ([] :: (string \<times> json) list))\<close>
    by (simp add: serve_def http_response_def join_lines_single loads_empty_object)
  from a C8_list_models_result_by_case [of _ AIClient_init _ \<open>serve ?r\<close> _ ?r
        \<open>[(''models'', JArr [JObj [(''name'', JStr ''llama3'')]])]\<close> \<open>JArr [JObj [(''name'', JStr ''llama3'')]]\<close>]
  have 1: \<open>list_models (serve ?r) AIClient_init = JArr [JObj [(''name'', JStr ''llama3'')]]\<close> by blast
  from s C8_list_models_result_by_case [of \<open>serve ?r\<close> AIClient_init \<open>serve ?r\<close>]
  have 0: \<open>list_models (serve ?r) AIClient_init = list_models (serve ?r) AIClient_init\<close> by blast
  from b C8_list_models_result_by_case [of _ AIClient_init _ \<open>refuse (OtherException ''Connection refused'')\<close>
        \<open>OtherException ''Connection refused''\<close>]
  have 2: \<open>list_models (refuse (OtherException ''Connection refused'')) AIClient_init = JArr []\<close> by blast
  from c C8_list_models_result_by_case [of _ AIClient_init _ \<open>serve ?h\<close> \<open>JSONDecodeError ''Expecting value''\<close> ?h]
  have 3: \<open>list_models (serve ?h) AIClient_init = JArr []\<close> by blast
  from d C8_list_models_result_by_case [of _ AIClient_init _ \<open>serve ?o\<close> _ ?o \<open>[]\<close>]
  have 4: \<open>list_models (serve ?o) AIClient_init = JArr []\<close> by blast
  from 0 1 2 3 4 show ?thesis by blast
qed

text \<open>
  The claim as it was stated fails on catalogue data whose \<^verbatim>\<open>models\<close> field is no
  list: \<^verbatim>\<open>{"models": 5}\<close> is returned as the number 5, which is no sequence, and the
  table of the command line then raises on it.
\<close>

theorem C8_models_field_returned_as_is:
  \<open>list_models (serve (http_response 200 [''{"models": 5}''])) AIClient_init = JInt 5
   \<and> snd (cli_list_models (locked_file_world (serve (http_response 200 [''{"models": 5}'']))) AICLI_init)
       = Some (TypeError (quoted ''int'' @ '' object is not iterable''))\<close>
  by code_simp

section \<open>The interactive session\<close>

lemma chat_loop_exit:
  "lower message \<in> set exit_commands
   \<Longrightarrow> chat_loop w self args (Typed message # rest) = ([Print InputPrompt, Print Goodbye], None)"
  by simp

lemma chat_loop_exit_cuts:
  "lower message \<in> set exit_commands
   \<Longrightarrow> chat_loop w self args (pre @ Typed message # rest) = chat_loop w self args (pre @ [Typed message])"
proof (induction pre)
  case Nil
  then show ?case by simp
next
  case (Cons k pre)
  then have ih: "chat_loop w self args (pre @ Typed message # rest)
                   = chat_loop w self args (pre @ [Typed message])" by simp
  show ?case
  proof (cases k)
    case CtrlC
    then show ?thesis by simp
  next
    case (Typed m)
    then show ?thesis by (simp add: ih cong: if_cong split: prod.splits option.splits)
  qed
qed

lemma lower_QUIT: "lower ''/QUIT'' = ''/quit''"
  by code_simp

lemma lower_Exit: "lower ''/Exit'' = ''/exit''"
  by code_simp

text \<open>
  Claim C1. When the line read is, in any mix of capitals, the exit command \<^verbatim>\<open>/quit\<close> or
  its alias \<^verbatim>\<open>/exit\<close>, the loop prints the farewell and returns: the run from that
  \<^verbatim>\<open>input()\<close> on is the prompt and the farewell, it holds no request, and whatever was
  typed after the command is never read, at any point of a session.
\<close>

theorem C1_exit_command_ends_session:
  \<open>lower message = ''/quit'' \<or> lower message = ''/exit''
    \<longrightarrow> chat_loop w self args (Typed message # rest) = ([Print InputPrompt, Print Goodbye], None)
      \<and> requests_of (fst (chat_loop w self args (Typed message # rest))) = []
      \<and> chat_loop w self args (pre @ Typed message # rest) = chat_loop w self args (pre @ [Typed message])\<close>
proof
  assume a: \<open>lower message = ''/quit'' \<or> lower message = ''/exit''\<close>
  then have ex: "lower message \<in> set exit_commands" by (auto simp: exit_commands_def)
  have 1: "chat_loop w self args (Typed message # rest) = ([Print InputPrompt, Print Goodbye], None)"
    using ex by (rule chat_loop_exit)
  have 2: "requests_of (fst (chat_loop w self args (Typed message # rest))) = []"
    unfolding 1 by simp
  have 3: "chat_loop w self args (pre @ Typed message # rest) = chat_loop w self args (pre @ [Typed message])"
    using ex by (rule chat_loop_exit_cuts)
  from 1 2 3 show \<open>chat_loop w self args (Typed message # rest) = ([Print InputPrompt, Print Goodbye], None)
      \<and> requests_of (fst (chat_loop w self args (Typed message # rest))) = []
      \<and> chat_loop w self args (pre @ Typed message # rest) = chat_loop w self args (pre @ [Typed message])\<close>
    by blast
qed

theorem C1_exit_command_ends_session_witness:
  \<open>chat_loop (locked_file_world (serve (http_response 200 [''{"response": "4"}''])))
      AICLI_init (plain_args NoCommand) [Typed ''/QUIT'', Typed ''2+2'']
     = ([Print InputPrompt, Print Goodbye], None)
   \<and> chat_loop (locked_file_world (serve (http_response 200 [''{"response": "4"}''])))
      AICLI_init (plain_args NoCommand) [Typed ''/Exit'', Typed ''2+2'']
     = ([Print InputPrompt, Print Goodbye], None)\<close>
  using C1_exit_command_ends_session
          [of \<open>''/QUIT''\<close> \<open>locked_file_world (serve (http_response 200 [''{"response": "4"}'']))\<close>
              AICLI_init \<open>plain_args NoCommand\<close> \<open>[Typed ''2+2'']\<close> \<open>[]\<close>]
        C1_exit_command_ends_session
          [of \<open>''/Exit''\<close> \<open>locked_file_world (serve (http_response 200 [''{"response": "4"}'']))\<close>
              AICLI_init \<open>plain_args NoCommand\<close> \<open>[Typed ''2+2'']\<close> \<open>[]\<close>]
  by (simp only: lower_QUIT lower_Exit simp_thms)

section \<open>The availability gate and the commands\<close>

lemma check_connection_fails:
  "net (check_connection_request self) = Inl e
     \<or> (\<exists>r. net (check_connection_request self) = Inr r \<and> status_code r \<noteq> 200)
   \<Longrightarrow> \<not> check_connection net self"
  by (auto simp: check_connection_def)

lemma requests_of_append: "requests_of (xs @ ys) = requests_of xs @ requests_of ys"
  by (induction xs rule: requests_of.induct) auto

lemma requests_of_model_rows: "requests_of (fst (model_rows w ms)) = []"
  by (induction ms) (auto split: sum.splits)

lemma requests_of_cli_list_models:
  "requests_of (fst (cli_list_models w self)) = [list_models_request (client self)]"
  by (auto simp: cli_list_models_def Let_def requests_of_append requests_of_model_rows split: json.splits)

lemma posts_of_cli_list_models: "posts_of (fst (cli_list_models w self)) = []"
  by (simp add: posts_of_def requests_of_cli_list_models list_models_request_def)

lemma status_unavailable:
  "\<not> check_connection (w_net w) (client self)
   \<Longrightarrow> check_ollama_status w self
        = ([Request (check_connection_request (client self)), Print NotRunningError, Print StartTip], False)"
  by (simp add: check_ollama_status_def)

lemma status_available:
  "check_connection (w_net w) (client self)
   \<Longrightarrow> check_ollama_status w self = ([Request (check_connection_request (client self))], True)"
  by (simp add: check_ollama_status_def)

lemma main_unavailable:
  assumes "\<not> check_connection (w_net w) (client AICLI_init)" and "command args \<noteq> Models"
  shows "main w args kb
           = ([Request (check_connection_request (client AICLI_init)), Print NotRunningError, Print StartTip], None)"
  using assms
  by (cases "command args")
     (simp_all add: main_def cmd_chat_def cmd_code_def cmd_explain_def cmd_translate_def
        cmd_summarize_def cmd_review_def status_unavailable)

lemma probe_ok:
  \<open>check_connection (serve (http_response 200 [''{"models": []}''])) AIClient_init\<close>
  by (simp add: check_connection_def serve_def http_response_def)

lemma probe_503: \<open>status_code (http_response 503 [''busy'']) \<noteq> 200\<close>
  by (simp add: http_response_def)

text \<open>
  Claim C6. When the probe fails (the request raises, which is how a network error and a
  timeout arrive, or the status is not 200, which covers every non-2xx status),
  \<open>check_connection\<close> returns false and raises nothing. When it returns false, every
  command that generates text (chat, code, explain, translate, summarize, review) stops
  after the probe and the two lines of the error message: the probe is its only request.
  The \<^verbatim>\<open>models\<close> command does not probe; its one request is the \<^verbatim>\<open>GET\<close> of the
  catalogue. No command issues a \<^verbatim>\<open>POST\<close>.
\<close>

theorem C6_probe_failure_stops_dispatch:
  \<open>(net (check_connection_request self) = Inl e
       \<or> (\<exists>r. net (check_connection_request self) = Inr r \<and> status_code r \<noteq> 200)
      \<longrightarrow> \<not> check_connection net self)
   \<and> (\<not> check_connection (w_net w) (client AICLI_init)
      \<longrightarrow> (command args \<noteq> Models
             \<longrightarrow> main w args kb
                   = ([Request (check_connection_request (client AICLI_init)),
                       Print NotRunningError, Print StartTip], None))
          \<and> posts_of (fst (main w args kb)) = [])\<close>
proof (intro conjI impI)
  assume \<open>net (check_connection_request self) = Inl e
       \<or> (\<exists>r. net (check_connection_request self) = Inr r \<and> status_code r \<noteq> 200)\<close>
  then show \<open>\<not> check_connection net self\<close>
    by (rule check_connection_fails)
next
  assume \<open>\<not> check_connection (w_net w) (client AICLI_init)\<close> and \<open>command args \<noteq> Models\<close>
  then show \<open>main w args kb
                   = ([Request (check_connection_request (client AICLI_init)),
                       Print NotRunningError, Print StartTip], None)\<close>
    by (rule main_unavailable)
next
  assume down: \<open>\<not> check_connection (w_net w) (client AICLI_init)\<close>
  show \<open>posts_of (fst (main w args kb)) = []\<close>
  proof (cases "command args = Models")
    case True
    then show ?thesis by (simp add: main_def posts_of_cli_list_models)
  next
    case False
    with down have "main w args kb
                   = ([Request (check_connection_request (client AICLI_init)),
                       Print NotRunningError, Print StartTip], None)"
      by (rule main_unavailable)
    then show ?thesis by (simp add: posts_of_def check_connection_request_def)
  qed
qed

theorem C6_probe_failure_stops_dispatch_witness:
  \<open>\<not> check_connection (refuse (OtherException ''Connection refused'')) AIClient_init
   \<and> \<not> check_connection (serve (http_response 503 [''busy''])) AIClient_init
   \<and> main (locked_file_world (refuse (OtherException ''Connection refused'')))
       (plain_args (Code ''sort a list'')) []
     = ([Request (check_connection_request (client AICLI_init)), Print NotRunningError, Print StartTip], None)
   \<and> posts_of (fst (main (locked_file_world (serve (http_response 503 [''busy''])))
                       (plain_args Models) [])) = []\<close>
proof -
  let ?refuse = \<open>refuse (OtherException ''Connection refused'')\<close>
  let ?busy = \<open>serve (http_response 503 [''busy''])\<close>
  let ?w = \<open>locked_file_world ?refuse\<close>
  let ?v = \<open>locked_file_world ?busy\<close>
  have a: \<open>?refuse (check_connection_request AIClient_init) = Inl (OtherException ''Connection refused'')
     \<or> (\<exists>r. ?refuse (check_connection_request AIClient_init) = Inr r \<and> status_code r \<noteq> 200)\<close>
    by (simp add: refuse_def)
  have b: \<open>?busy (check_connection_request AIClient_init) = Inl (OtherException ''Connection refused'')
     \<or> (\<exists>r. ?busy (check_connection_request AIClient_init) = Inr r \<and> status_code r \<noteq> 200)\<close>
    by (simp add: serve_def probe_503)
  from a C6_probe_failure_stops_dispatch [of ?refuse AIClient_init \<open>OtherException ''Connection refused''\<close>]
  have 1: \<open>\<not> check_connection ?refuse AIClient_init\<close> by blast
  from b C6_probe_failure_stops_dispatch [of ?busy AIClient_init \<open>OtherException ''Connection refused''\<close>]
  have 2: \<open>\<not> check_connection ?busy AIClient_init\<close> by blast
  from 1 have dw: \<open>\<not> check_connection (w_net ?w) (client AICLI_init)\<close>
    by (simp add: locked_file_world_def AICLI_init_def)
  from 2 have dv: \<open>\<not> check_connection (w_net ?v) (client AICLI_init)\<close>
    by (simp add: locked_file_world_def AICLI_init_def)
  have c: \<open>command (plain_args (Code ''sort a list'')) \<noteq> Models\<close>
    by (simp add: plain_args_def)
  from dw c C6_probe_failure_stops_dispatch [of _ _ _ ?w \<open>plain_args (Code ''sort a list'')\<close> \<open>[]\<close>]
  have 3: \<open>main ?w (plain_args (Code ''sort a list'')) []
     = ([Request (check_connection_request (client AICLI_init)), Print NotRunningError, Print StartTip], None)\<close>
    by blast
  from dv C6_probe_failure_stops_dispatch [of _ _ _ ?v \<open>plain_args Models\<close> \<open>[]\<close>]
  have 4: \<open>posts_of (fst (main ?v (plain_args Models) [])) = []\<close>
    by blast
  from 1 2 3 4 show ?thesis by blast
qed

lemma requests_of_chunks: "requests_of (map (\<lambda>chunk. Print (Chunk chunk)) cs) = []"
  by (induction cs) auto

lemma posts_of_respond:
  "posts_of (respond w self args prompt_text sp)
     = [if stream_flag args
        then chat_stream_request (client self) prompt_text (Some (model_arg args)) sp
        else chat_request (client self) prompt_text (Some (model_arg args)) sp]"
  by (simp add: posts_of_def respond_def print_stream_def print_chat_def requests_of_append
        requests_of_chunks chat_stream_request_def chat_request_def)

lemma posts_of_append: "posts_of (xs @ ys) = posts_of xs @ posts_of ys"
  by (simp add: posts_of_def requests_of_append)

lemma posts_of_Nil: "posts_of [] = []"
  by (simp add: posts_of_def)

lemma posts_of_Request:
  "posts_of (Request r # es) = (if http_method r = POST then r # posts_of es else posts_of es)"
  by (simp add: posts_of_def)

lemma posts_of_Print: "posts_of (Print m # es) = posts_of es"
  by (simp add: posts_of_def)

lemma probe_is_GET: "http_method (check_connection_request c) = GET"
  by (simp add: check_connection_request_def)

text \<open>
  Claim C2, as the code has it. Summarize, review and explain probe the server first, so
  every run begins with one network call, the \<^verbatim>\<open>GET\<close> of the probe. When the probe
  fails the command prints the unavailability message and returns.
  When it succeeds: on a file that exists and cannot be read each of the three prints
  the read error and returns at once; on a path that is no file, review prints that the
  file was not found and returns at once. In all these cases the probe is the only
  request: no generation request (\<^verbatim>\<open>POST\<close>) is issued. Summarize and explain take a
  path that is no file for the text or the topic itself and send it in one generation
  request.
\<close>

theorem C2_file_error_after_probe_before_generation:
  \<open>(isfile w path \<and> read_file w path = Inl e \<and> check_connection (w_net w) (client self)
      \<longrightarrow> cmd_summarize w self args path
            = ([Request (check_connection_request (client self)), Print (FileReadError e)], None)
        \<and> cmd_review w self args path
            = ([Request (check_connection_request (client self)), Print (FileReadError e)], None)
        \<and> cmd_explain w self args path
            = ([Request (check_connection_request (client self)), Print (FileReadError e)], None))
   \<and> (\<not> isfile w path \<and> check_connection (w_net w) (client self)
      \<longrightarrow> cmd_review w self args path
            = ([Request (check_connection_request (client self)), Print (FileNotFound path)], None))
   \<and> (\<not> check_connection (w_net w) (client self)
      \<longrightarrow> cmd_summarize w self args path
            = ([Request (check_connection_request (client self)), Print NotRunningError, Print StartTip], None)
        \<and> cmd_review w self args path
            = ([Request (check_connection_request (client self)), Print NotRunningError, Print StartTip], None)
        \<and> cmd_explain w self args path
            = ([Request (check_connection_request (client self)), Print NotRunningError, Print StartTip], None))
   \<and> (\<not> isfile w path \<or> read_file w path = Inl e
      \<longrightarrow> posts_of (fst (cmd_review w self args path)) = [])
   \<and> (isfile w path \<and> read_file w path = Inl e
      \<longrightarrow> posts_of (fst (cmd_summarize w self args path)) = []
        \<and> posts_of (fst (cmd_explain w self args path)) = [])
   \<and> (\<not> isfile w path \<and> check_connection (w_net w) (client self)
      \<longrightarrow> posts_of (fst (cmd_summarize w self args path))
            = [if stream_flag args
               then chat_stream_request (client self) (''Please summarize: '' @ path)
                      (Some (model_arg args)) (Some summarize_system_prompt)
               else chat_request (client self) (''Please summarize: '' @ path)
                      (Some (model_arg args)) (Some summarize_system_prompt)]
        \<and> posts_of (fst (cmd_explain w self args path))
            = [if stream_flag args
               then chat_stream_request (client self) (''Please explain: '' @ path)
                      (Some (model_arg args)) (Some explain_system_prompt)
               else chat_request (client self) (''Please explain: '' @ path)
                      (Some (model_arg args)) (Some explain_system_prompt)])
   \<and> take 1 (fst (cmd_summarize w self args path)) = [Request (check_connection_request (client self))]
   \<and> take 1 (fst (cmd_review w self args path)) = [Request (check_connection_request (client self))]
   \<and> take 1 (fst (cmd_explain w self args path)) = [Request (check_connection_request (client self))]\<close>
proof (cases "check_connection (w_net w) (client self)")
  case True
  then show ?thesis
    by (simp add: Let_def split: sum.splits add: cmd_summarize_def cmd_review_def cmd_explain_def status_available
          posts_of_append posts_of_Nil posts_of_Request posts_of_Print posts_of_respond probe_is_GET)
next
  case False
  then show ?thesis
    by (simp add: cmd_summarize_def cmd_review_def cmd_explain_def status_unavailable
          posts_of_Nil posts_of_Request posts_of_Print probe_is_GET)
qed

theorem C2_file_error_after_probe_before_generation_witness:
  \<open>cmd_summarize (locked_file_world (serve (http_response 200 [''{"models": []}''])))
       AICLI_init (plain_args (Summarize ''notes.txt'')) ''notes.txt''
     = ([Request (check_connection_request (client AICLI_init)),
         Print (FileReadError (OtherException ''Permission denied''))], None)
   \<and> cmd_review (locked_file_world (serve (http_response 200 [''{"models": []}''])))
       AICLI_init (plain_args (Review ''missing.txt'')) ''missing.txt''
     = ([Request (check_connection_request (client AICLI_init)), Print (FileNotFound ''missing.txt'')], None)
   \<and> cmd_explain (locked_file_world (refuse (OtherException ''Connection refused'')))
       AICLI_init (plain_args (Explain ''notes.txt'')) ''notes.txt''
     = ([Request (check_connection_request (client AICLI_init)), Print NotRunningError, Print StartTip], None)
   \<and> posts_of (fst (cmd_review (locked_file_world (serve (http_response 200 [''{"models": []}''])))
                       AICLI_init (plain_args (Review ''notes.txt'')) ''notes.txt'')) = []
   \<and> posts_of (fst (cmd_explain (locked_file_world (serve (http_response 200 [''{"models": []}''])))
                       AICLI_init (plain_args (Explain ''notes.txt'')) ''notes.txt'')) = []
   \<and> posts_of (fst (cmd_explain (locked_file_world (serve (http_response 200 [''{"models": []}''])))
                       AICLI_init (plain_args (Explain ''recursion'')) ''recursion''))
       = [chat_request (client AICLI_init) ''Please explain: recursion''
            (Some ''llama3-small-q3-k-s'') (Some explain_system_prompt)]\<close>
proof -
  let ?w = \<open>locked_file_world (serve (http_response 200 [''{"models": []}'']))\<close>
  let ?v = \<open>locked_file_world (refuse (OtherException ''Connection refused''))\<close>
  let ?e = \<open>OtherException ''Permission denied''\<close>
  have locked: \<open>isfile ?w ''notes.txt'' \<and> read_file ?w ''notes.txt'' = Inl ?e\<close>
    by (simp add: locked_file_world_def)
  have up: \<open>check_connection (w_net ?w) (client AICLI_init)\<close>
    by (simp add: locked_file_world_def AICLI_init_def probe_ok)
  have down: \<open>\<not> check_connection (w_net ?v) (client AICLI_init)\<close>
    by (simp add: locked_file_world_def check_connection_def refuse_def)
  have missing: \<open>\<not> isfile ?w ''missing.txt''\<close>
    by (simp add: locked_file_world_def)
  have topic: \<open>\<not> isfile ?w ''recursion''\<close>
    by (simp add: locked_file_world_def)
  have plain: \<open>\<not> stream_flag (plain_args (Explain ''recursion''))
      \<and> model_arg (plain_args (Explain ''recursion'')) = ''llama3-small-q3-k-s''\<close>
    by (simp add: plain_args_def)
  from locked up C2_file_error_after_probe_before_generation [of ?w \<open>''notes.txt''\<close> ?e AICLI_init \<open>plain_args (Summarize ''notes.txt'')\<close>]
  have 1: \<open>cmd_summarize ?w AICLI_init (plain_args (Summarize ''notes.txt'')) ''notes.txt''
     = ([Request (check_connection_request (client AICLI_init)), Print (FileReadError ?e)], None)\<close>
    by blast
  from missing up C2_file_error_after_probe_before_generation [of ?w \<open>''missing.txt''\<close> ?e AICLI_init \<open>plain_args (Review ''missing.txt'')\<close>]
  have 2: \<open>cmd_review ?w AICLI_init (plain_args (Review ''missing.txt'')) ''missing.txt''
     = ([Request (check_connection_request (client AICLI_init)), Print (FileNotFound ''missing.txt'')], None)\<close>
    by blast
  from down C2_file_error_after_probe_before_generation [of ?v \<open>''notes.txt''\<close> ?e AICLI_init \<open>plain_args (Explain ''notes.txt'')\<close>]
  have 3: \<open>cmd_explain ?v AICLI_init (plain_args (Explain ''notes.txt'')) ''notes.txt''
     = ([Request (check_connection_request (client AICLI_init)), Print NotRunningError, Print StartTip], None)\<close>
    by blast
  from locked C2_file_error_after_probe_before_generation [of ?w \<open>''notes.txt''\<close> ?e AICLI_init \<open>plain_args (Review ''notes.txt'')\<close>]
  have 4: \<open>posts_of (fst (cmd_review ?w AICLI_init (plain_args (Review ''notes.txt'')) ''notes.txt'')) = []\<close>
    by blast
  from locked C2_file_error_after_probe_before_generation [of ?w \<open>''notes.txt''\<close> ?e AICLI_init \<open>plain_args (Explain ''notes.txt'')\<close>]
  have 5: \<open>posts_of (fst (cmd_explain ?w AICLI_init (plain_args (Explain ''notes.txt'')) ''notes.txt'')) = []\<close>
    by blast
  from topic up C2_file_error_after_probe_before_generation [of ?w \<open>''recursion''\<close> ?e AICLI_init \<open>plain_args (Explain ''recursion'')\<close>]
  have \<open>posts_of (fst (cmd_explain ?w AICLI_init (plain_args (Explain ''recursion'')) ''recursion''))
       = [if stream_flag (plain_args (Explain ''recursion''))
          then chat_stream_request (client AICLI_init) (''Please explain: '' @ ''recursion'')
                 (Some (model_arg (plain_args (Explain ''recursion'')))) (Some explain_system_prompt)
          else chat_request (client AICLI_init) (''Please explain: '' @ ''recursion'')
                 (Some (model_arg (plain_args (Explain ''recursion'')))) (Some explain_system_prompt)]\<close>
    by blast
  with plain have 6: \<open>posts_of (fst (cmd_explain ?w AICLI_init (plain_args (Explain ''recursion'')) ''recursion''))
       = [chat_request (client AICLI_init) ''Please explain: recursion''
            (Some ''llama3-small-q3-k-s'') (Some explain_system_prompt)]\<close>
    by simp
  from 1 2 3 4 5 6 show ?thesis by blast
qed

text \<open>
  The claim as it was stated fails twice: the run of a review of the unreadable file
  holds a network request, the probe, before the error is printed; and a summary of a
  path that is no file prints no error and issues a generation request.
\<close>

theorem C2_probe_first_and_missing_path_sent:
  \<open>read_file (locked_file_world (serve (http_response 200 [''{"models": []}''])))  ''notes.txt''
      = Inl (OtherException ''Permission denied'')
   \<and> cmd_review (locked_file_world (serve (http_response 200 [''{"models": []}'']))) AICLI_init
        (plain_args (Review ''notes.txt'')) ''notes.txt''
      = ([Request (check_connection_request AIClient_init),
          Print (FileReadError (OtherException ''Permission denied''))], None)
   \<and> \<not> isfile (locked_file_world (serve (http_response 200 [''{"models": []}'']))) ''missing.txt''
   \<and> posts_of (fst (cmd_summarize (locked_file_world (serve (http_response 200 [''{"models": []}'']))) AICLI_init
        (plain_args (Summarize ''missing.txt'')) ''missing.txt''))
      = [chat_request AIClient_init ''Please summarize: missing.txt''
           (Some ''llama3-small-q3-k-s'') (Some summarize_system_prompt)]\<close>
  by (simp add: cmd_review_def cmd_summarize_def check_ollama_status_def locked_file_world_def AICLI_init_def
        probe_ok plain_args_def posts_of_append posts_of_Nil posts_of_Request posts_of_Print posts_of_respond
        probe_is_GET)

end
